theory Spec2Isabelle
  imports Complex_Main
begin

section \<open>Data model (types.ts)\<close>

text \<open>
  The risk engine is a set of pure functions over one patient record.  JavaScript numbers
  are modelled by the real numbers: \<open>Math.log\<close> is \<^term>\<open>ln\<close>, \<open>Math.exp\<close> is
  \<^term>\<open>exp\<close>, and \<open>Math.pow\<close>, which the code only applies to a positive base, is
  \<^term>\<open>(powr)\<close>.  The model therefore describes the closed-form formulas of the code,
  not the rounding of IEEE doubles, and a logarithm is meaningful only at a positive
  argument: results that depend on the logarithm of an input carry the positivity of
  that input as a hypothesis.
\<close>

datatype Gender = MALE | FEMALE

record MedicalData =
  age :: real
  gender :: Gender
  height :: real
  weight :: real
  bmi :: real
  systolicBP :: real
  diastolicBP :: real
  totalCholesterol :: real
  hdlCholesterol :: real
  hasDiabetes :: bool
  isSmoker :: bool
  onHypertensionMeds :: bool
  onStatins :: bool
  eGFR :: real
  acr :: real
  useFullKfre :: bool
  phosphate :: "real option"
  bicarbonate :: "real option"
  calcium :: "real option"
  albumin :: "real option"

datatype CombinedLevel = low | moderate | high | very_high

text \<open>The object returned by \<open>calculateCVRisk\<close>.\<close>

record CVRisk =
  fiveYear :: real
  tenYear :: real
  fifteenYear :: real
  total :: real

text \<open>The object returned by \<open>calculateRenalRisk\<close>, also the \<open>renalTimeline\<close> of the results.\<close>

record RenalRisk =
  twoYear :: real
  fiveYear :: real
  tenYear :: real

text \<open>The three components of \<open>RiskResults\<close>.\<close>

record CVTimeline =
  fiveYear :: real
  tenYear :: real
  fifteenYear :: real

record CV30y =
  total :: real

record RiskResults =
  cvTimeline :: CVTimeline
  cv30y :: CV30y
  renalTimeline :: RenalRisk
  combinedLevel :: CombinedLevel

section \<open>Cardiovascular risk: \<open>calculateCVRisk\<close>\<close>

text \<open>The age the model evaluates: \<open>Math.min(Math.max(age, 30), 79)\<close>.\<close>

definition evalAge :: "MedicalData \<Rightarrow> real" where
  "evalAge d = min (max (age d) 30) 79"

text \<open>The sex-specific sum \<open>indivSum\<close> of the two branches of the code.\<close>

definition indivSum :: "MedicalData \<Rightarrow> real" where
  "indivSum d =
    (let lnAge = ln (evalAge d);
         lnTotalChol = ln (totalCholesterol d);
         lnHDL = ln (hdlCholesterol d);
         lnSBP = ln (systolicBP d);
         smoker = (if isSmoker d then 1 else 0);
         diabetes = (if hasDiabetes d then 1 else 0)
     in if gender d = MALE then
          (12.344 * lnAge) +
          (11.853 * lnTotalChol) +
          (- 2.664 * lnAge * lnTotalChol) +
          (- 7.990 * lnHDL) +
          (1.769 * lnAge * lnHDL) +
          (if onHypertensionMeds d then 1.797 * lnSBP else 1.764 * lnSBP) +
          (7.837 * smoker) +
          (- 1.795 * lnAge * smoker) +
          (0.658 * diabetes)
        else
          (- 29.799 * lnAge) +
          (4.884 * lnAge * lnAge) +
          (13.540 * lnTotalChol) +
          (- 3.114 * lnAge * lnTotalChol) +
          (- 13.578 * lnHDL) +
          (3.149 * lnAge * lnHDL) +
          (if onHypertensionMeds d then 2.019 * lnSBP else 1.957 * lnSBP) +
          (7.574 * smoker) +
          (- 1.665 * lnAge * smoker) +
          (0.661 * diabetes))"

definition meanSum :: "MedicalData \<Rightarrow> real" where
  "meanSum d = (if gender d = MALE then 61.1816 else - 29.182)"

definition s10 :: "MedicalData \<Rightarrow> real" where
  "s10 d = (if gender d = MALE then 0.9144 else 0.9665)"

definition riskFactor :: "MedicalData \<Rightarrow> real" where
  "riskFactor d = exp (indivSum d - meanSum d)"

text \<open>
  The inner function \<open>calculateRiskAtTime\<close>; the record stands for the variables
  \<open>s10\<close>, \<open>riskFactor\<close> and \<open>onStatins\<close> that the closure captures.
\<close>

definition calculateRiskAtTime :: "MedicalData \<Rightarrow> real \<Rightarrow> real" where
  "calculateRiskAtTime d t =
    (let st = s10 d powr (t / 10);
         risk = 1 - st powr riskFactor d;
         risk = (if onStatins d then risk * 0.75 else risk)
     in min (max (risk * 100) 0.1) 100)"

definition calculateCVRisk :: "MedicalData \<Rightarrow> CVRisk" where
  "calculateCVRisk d =
    \<lparr> CVRisk.fiveYear = calculateRiskAtTime d 5,
      CVRisk.tenYear = calculateRiskAtTime d 10,
      CVRisk.fifteenYear = calculateRiskAtTime d 15,
      CVRisk.total = calculateRiskAtTime d 10 \<rparr>"

section \<open>Renal risk: \<open>calculateRenalRisk\<close>\<close>

text \<open>The linear predictor \<open>lp\<close> of the four-variable kidney failure risk equation.\<close>

definition lp :: "MedicalData \<Rightarrow> real" where
  "lp d =
    (let isMale = (if gender d = MALE then 1 else 0);
         lnACR = ln (acr d)
     in - 0.2201 * (age d / 10 - 7.036) +
        0.2467 * (isMale - 0.5642) -
        0.5567 * (eGFR d / 5 - 7.222) +
        0.4510 * (lnACR - 5.137))"

definition calculateRenalRisk :: "MedicalData \<Rightarrow> RenalRisk" where
  "calculateRenalRisk d =
    (let s2 = 0.9832; s5 = 0.9365; s10 = 0.8200
     in \<lparr> twoYear = (1 - s2 powr exp (lp d)) * 100,
          RenalRisk.fiveYear = (1 - s5 powr exp (lp d)) * 100,
          RenalRisk.tenYear = (1 - s10 powr exp (lp d)) * 100 \<rparr>)"

section \<open>Combination: \<open>getCombinedResults\<close> and \<open>calculateOptimalRisk\<close>\<close>

definition getCombinedResults :: "MedicalData \<Rightarrow> RiskResults" where
  "getCombinedResults d =
    (let cvRes = calculateCVRisk d;
         renalRes = calculateRenalRisk d;
         level =
           (if CVRisk.tenYear cvRes > 20 \<or> RenalRisk.fiveYear renalRes > 15 then very_high
            else if CVRisk.tenYear cvRes > 10 \<or> RenalRisk.fiveYear renalRes > 10 then high
            else if CVRisk.tenYear cvRes > 5 \<or> RenalRisk.fiveYear renalRes > 5 then moderate
            else low)
     in \<lparr> cvTimeline =
            \<lparr> CVTimeline.fiveYear = CVRisk.fiveYear cvRes,
              CVTimeline.tenYear = CVRisk.tenYear cvRes,
              CVTimeline.fifteenYear = CVRisk.fifteenYear cvRes \<rparr>,
          cv30y = \<lparr> CV30y.total = min (CVRisk.tenYear cvRes * 2.5) 100 \<rparr>,
          renalTimeline =
            \<lparr> twoYear = twoYear renalRes,
              RenalRisk.fiveYear = RenalRisk.fiveYear renalRes,
              RenalRisk.tenYear = RenalRisk.tenYear renalRes \<rparr>,
          combinedLevel = level \<rparr>)"

text \<open>The local \<open>optimalData\<close> of \<open>calculateOptimalRisk\<close>: the spread record with its overrides.\<close>

definition optimalData :: "MedicalData \<Rightarrow> MedicalData" where
  "optimalData d =
    d\<lparr> systolicBP := 115,
       diastolicBP := 75,
       totalCholesterol := 160,
       hdlCholesterol := 55,
       isSmoker := False,
       onHypertensionMeds := False,
       onStatins := False,
       hasDiabetes := hasDiabetes d \<rparr>"

definition calculateOptimalRisk :: "MedicalData \<Rightarrow> CVRisk" where
  "calculateOptimalRisk d = calculateCVRisk (optimalData d)"

section \<open>Auxiliary notions\<close>

text \<open>
  The positivity preconditions of the cardiovascular model: every argument of a
  logarithm that comes from the record is strictly positive.
\<close>

definition validRecord :: "MedicalData \<Rightarrow> bool" where
  "validRecord d \<longleftrightarrow>
     0 < age d \<and> 0 < totalCholesterol d \<and> 0 < hdlCholesterol d \<and> 0 < systolicBP d"

text \<open>
  The percentage that \<open>calculateRiskAtTime\<close> passes to its final clamp: the same steps
  without the last \<open>Math.min(Math.max(_, 0.1), 100)\<close>.
\<close>

definition riskBeforeClamp :: "MedicalData \<Rightarrow> real \<Rightarrow> real" where
  "riskBeforeClamp d t =
    (let st = s10 d powr (t / 10);
         risk = 1 - st powr riskFactor d;
         risk = (if onStatins d then risk * 0.75 else risk)
     in risk * 100)"

text \<open>
  The linear predictor as the specification words it: a linear combination of
  \<open>ln(age)\<close>, \<open>ln(total cholesterol)\<close>, \<open>ln(HDL)\<close>, \<open>ln(systolic BP)\<close> (its
  coefficient chosen by the hypertension-medication flag), the two interactions with
  \<open>ln(age)\<close>, the smoking indicator, its interaction with \<open>ln(age)\<close> and the diabetes
  indicator, and nothing else.
\<close>

record Coefficients =
  cAge :: real
  cTotalChol :: real
  cAgeTotalChol :: real
  cHDL :: real
  cAgeHDL :: real
  cSBPTreated :: real
  cSBPUntreated :: real
  cSmoker :: real
  cAgeSmoker :: real
  cDiabetes :: real

definition specLinearPredictor :: "Coefficients \<Rightarrow> MedicalData \<Rightarrow> real" where
  "specLinearPredictor c d =
     cAge c * ln (evalAge d) +
     cTotalChol c * ln (totalCholesterol d) +
     cAgeTotalChol c * (ln (evalAge d) * ln (totalCholesterol d)) +
     cHDL c * ln (hdlCholesterol d) +
     cAgeHDL c * (ln (evalAge d) * ln (hdlCholesterol d)) +
     (if onHypertensionMeds d then cSBPTreated c else cSBPUntreated c) * ln (systolicBP d) +
     cSmoker c * (if isSmoker d then 1 else 0) +
     cAgeSmoker c * (ln (evalAge d) * (if isSmoker d then 1 else 0)) +
     cDiabetes c * (if hasDiabetes d then 1 else 0)"

text \<open>The coefficients that the code gives to these terms, for each sex.\<close>

definition pceCoefficients :: "Gender \<Rightarrow> Coefficients" where
  "pceCoefficients g =
    (if g = MALE then
       \<lparr> cAge = 12.344, cTotalChol = 11.853, cAgeTotalChol = - 2.664, cHDL = - 7.990,
         cAgeHDL = 1.769, cSBPTreated = 1.797, cSBPUntreated = 1.764, cSmoker = 7.837,
         cAgeSmoker = - 1.795, cDiabetes = 0.658 \<rparr>
     else
       \<lparr> cAge = - 29.799, cTotalChol = 13.540, cAgeTotalChol = - 3.114, cHDL = - 13.578,
         cAgeHDL = 3.149, cSBPTreated = 2.019, cSBPUntreated = 1.957, cSmoker = 7.574,
         cAgeSmoker = - 1.665, cDiabetes = 0.661 \<rparr>)"

text \<open>
  A polynomial below the exponential function (its Taylor polynomial of degree seven),
  used to bound logarithms and exponentials of concrete numbers.
\<close>

definition expLower :: "real \<Rightarrow> real" where
  "expLower x =
     1 + x + x ^ 2 / 2 + x ^ 3 / 6 + x ^ 4 / 24 + x ^ 5 / 120 + x ^ 6 / 720 + x ^ 7 / 5040"

section \<open>Concrete records\<close>

text \<open>The record the form of the application starts from (its initial \<open>formData\<close>).\<close>

definition formData :: MedicalData where
  "formData =
    \<lparr> age = 50, gender = MALE, height = 180, weight = 103, bmi = 31.8,
      systolicBP = 145, diastolicBP = 92, totalCholesterol = 250, hdlCholesterol = 38,
      hasDiabetes = False, isSmoker = False, onHypertensionMeds = True, onStatins = False,
      eGFR = 56.4, acr = 175, useFullKfre = False,
      phosphate = None, bicarbonate = None, calcium = None, albumin = None \<rparr>"

text \<open>A second record, equal to \<^term>\<open>formData\<close> on age, sex and diabetes only.\<close>

definition formDataOtherVitals :: MedicalData where
  "formDataOtherVitals =
    \<lparr> age = 50, gender = MALE, height = 165, weight = 70, bmi = 25.7,
      systolicBP = 180, diastolicBP = 110, totalCholesterol = 310, hdlCholesterol = 29,
      hasDiabetes = False, isSmoker = True, onHypertensionMeds = False, onStatins = True,
      eGFR = 24, acr = 900, useFullKfre = True,
      phosphate = Some 4.5, bicarbonate = Some 22, calcium = Some 9, albumin = Some 3.5 \<rparr>"

text \<open>A third record, equal to \<^term>\<open>formData\<close> on age, sex, eGFR and ACR only.\<close>

definition formDataOtherCardio :: MedicalData where
  "formDataOtherCardio =
    \<lparr> age = 50, gender = MALE, height = 165, weight = 70, bmi = 25.7,
      systolicBP = 180, diastolicBP = 110, totalCholesterol = 310, hdlCholesterol = 29,
      hasDiabetes = True, isSmoker = True, onHypertensionMeds = False, onStatins = True,
      eGFR = 56.4, acr = 175, useFullKfre = True,
      phosphate = Some 4.5, bicarbonate = Some 22, calcium = Some 9, albumin = Some 3.5 \<rparr>"

text \<open>A healthy woman of thirty with a high HDL cholesterol: a record of very low risk.\<close>

definition lowRiskPatient :: MedicalData where
  "lowRiskPatient =
    \<lparr> age = 30, gender = FEMALE, height = 168, weight = 60, bmi = 21.3,
      systolicBP = 115, diastolicBP = 75, totalCholesterol = 160, hdlCholesterol = 100,
      hasDiabetes = False, isSmoker = False, onHypertensionMeds = False, onStatins = False,
      eGFR = 100, acr = 10, useFullKfre = False,
      phosphate = None, bicarbonate = None, calcium = None, albumin = None \<rparr>"

text \<open>
  A diabetic man of seventy whose blood pressure and lipids already are at the optimal
  targets, without any treatment.
\<close>

definition highRiskPatient :: MedicalData where
  "highRiskPatient =
    \<lparr> age = 70, gender = MALE, height = 175, weight = 80, bmi = 26.1,
      systolicBP = 115, diastolicBP = 75, totalCholesterol = 160, hdlCholesterol = 55,
      hasDiabetes = True, isSmoker = False, onHypertensionMeds = False, onStatins = False,
      eGFR = 80, acr = 20, useFullKfre = False,
      phosphate = None, bicarbonate = None, calcium = None, albumin = None \<rparr>"

text \<open>The same man on statin therapy, and the same man on antihypertensive medication.\<close>

definition highRiskOnStatins :: MedicalData where
  "highRiskOnStatins = highRiskPatient\<lparr> onStatins := True \<rparr>"

definition highRiskTreated :: MedicalData where
  "highRiskTreated = highRiskPatient\<lparr> onHypertensionMeds := True \<rparr>"

text \<open>
  A female record in which the three logarithms of laboratory values vanish, for a given
  age: the linear predictor then depends on \<open>ln(age)\<close> alone.
\<close>

definition unitProbe :: "real \<Rightarrow> MedicalData" where
  "unitProbe a =
    \<lparr> age = a, gender = FEMALE, height = 168, weight = 60, bmi = 21.3,
      systolicBP = 1, diastolicBP = 1, totalCholesterol = 1, hdlCholesterol = 1,
      hasDiabetes = False, isSmoker = False, onHypertensionMeds = False, onStatins = False,
      eGFR = 100, acr = 10, useFullKfre = False,
      phosphate = None, bicarbonate = None, calcium = None, albumin = None \<rparr>"

text \<open>
  A diabetic smoker of seventy-nine, and a woman of seventy-five with a low HDL
  cholesterol; all their other modifiable fields have the optimal values.
\<close>

definition elderlySmoker :: MedicalData where
  "elderlySmoker =
    \<lparr> age = 79, gender = MALE, height = 175, weight = 80, bmi = 26.1,
      systolicBP = 115, diastolicBP = 75, totalCholesterol = 160, hdlCholesterol = 55,
      hasDiabetes = True, isSmoker = True, onHypertensionMeds = False, onStatins = False,
      eGFR = 80, acr = 20, useFullKfre = False,
      phosphate = None, bicarbonate = None, calcium = None, albumin = None \<rparr>"

definition womanLowHDL :: MedicalData where
  "womanLowHDL =
    \<lparr> age = 75, gender = FEMALE, height = 160, weight = 62, bmi = 24.2,
      systolicBP = 115, diastolicBP = 75, totalCholesterol = 160, hdlCholesterol = 40,
      hasDiabetes = False, isSmoker = False, onHypertensionMeds = False, onStatins = False,
      eGFR = 80, acr = 20, useFullKfre = False,
      phosphate = None, bicarbonate = None, calcium = None, albumin = None \<rparr>"

text \<open>
  The record of the form with its systolic pressure engineered so that the ten-year
  cardiovascular risk is a given percentage \<open>p\<close>: the pressure solves
  \<open>1 - 0.9144 powr riskFactor = p / 100\<close> for the logarithm of the pressure.
\<close>

definition engineeredSBP :: "real \<Rightarrow> real" where
  "engineeredSBP p =
     exp ((61.1816 + ln (ln (1 - p / 100) / ln 0.9144)
           - (12.344 * ln 50 + 11.853 * ln 250 - 2.664 * ln 50 * ln 250
              - 7.990 * ln 38 + 1.769 * ln 50 * ln 38)) / 1.797)"

definition engineered :: "real \<Rightarrow> MedicalData" where
  "engineered p = formData\<lparr> systolicBP := engineeredSBP p \<rparr>"

section \<open>Basic facts about the model\<close>

lemma optimalData_fields:
  "age (optimalData d) = age d"
  "gender (optimalData d) = gender d"
  "hasDiabetes (optimalData d) = hasDiabetes d"
  "systolicBP (optimalData d) = 115"
  "totalCholesterol (optimalData d) = 160"
  "hdlCholesterol (optimalData d) = 55"
  "isSmoker (optimalData d) = False"
  "onHypertensionMeds (optimalData d) = False"
  "onStatins (optimalData d) = False"
  by (simp_all add: optimalData_def)

lemma evalAge_bounds: "30 \<le> evalAge d" "evalAge d \<le> 79"
  by (simp_all add: evalAge_def)

lemma evalAge_optimalData: "evalAge (optimalData d) = evalAge d"
  by (simp add: evalAge_def optimalData_fields)

lemma indivSum_MALE:
  assumes "gender d = MALE"
  shows "indivSum d =
    12.344 * ln (evalAge d) + 11.853 * ln (totalCholesterol d)
    - 2.664 * ln (evalAge d) * ln (totalCholesterol d)
    - 7.990 * ln (hdlCholesterol d)
    + 1.769 * ln (evalAge d) * ln (hdlCholesterol d)
    + (if onHypertensionMeds d then 1.797 else 1.764) * ln (systolicBP d)
    + (if isSmoker d then 7.837 - 1.795 * ln (evalAge d) else 0)
    + (if hasDiabetes d then 0.658 else 0)"
  unfolding indivSum_def Let_def using assms by simp

lemma indivSum_FEMALE:
  assumes "gender d = FEMALE"
  shows "indivSum d =
    - 29.799 * ln (evalAge d) + 4.884 * ln (evalAge d) * ln (evalAge d)
    + 13.540 * ln (totalCholesterol d)
    - 3.114 * ln (evalAge d) * ln (totalCholesterol d)
    - 13.578 * ln (hdlCholesterol d)
    + 3.149 * ln (evalAge d) * ln (hdlCholesterol d)
    + (if onHypertensionMeds d then 2.019 else 1.957) * ln (systolicBP d)
    + (if isSmoker d then 7.574 - 1.665 * ln (evalAge d) else 0)
    + (if hasDiabetes d then 0.661 else 0)"
  unfolding indivSum_def Let_def using assms by simp

lemma indivSum_cong:
  assumes "evalAge d1 = evalAge d2" and "gender d1 = gender d2"
    and "totalCholesterol d1 = totalCholesterol d2"
    and "hdlCholesterol d1 = hdlCholesterol d2"
    and "systolicBP d1 = systolicBP d2"
    and "isSmoker d1 = isSmoker d2"
    and "hasDiabetes d1 = hasDiabetes d2"
    and "onHypertensionMeds d1 = onHypertensionMeds d2"
  shows "indivSum d1 = indivSum d2"
  unfolding indivSum_def assms by (rule refl)

lemma s10_bounds: "0 < s10 d" "s10 d < 1"
  by (simp_all add: s10_def)

lemma riskFactor_pos: "0 < riskFactor d"
  by (simp add: riskFactor_def)

lemma calculateRiskAtTime_clamp:
  "calculateRiskAtTime d t = min (max (riskBeforeClamp d t) 0.1) 100"
  by (simp add: calculateRiskAtTime_def riskBeforeClamp_def Let_def)

lemma calculateRiskAtTime_cong:
  assumes "indivSum d1 = indivSum d2" and "gender d1 = gender d2"
    and "onStatins d1 = onStatins d2"
  shows "calculateRiskAtTime d1 t = calculateRiskAtTime d2 t"
  unfolding calculateRiskAtTime_def riskFactor_def meanSum_def s10_def assms by (rule refl)

lemma calculateRiskAtTime_bounds:
  "0.1 \<le> calculateRiskAtTime d t" "calculateRiskAtTime d t \<le> 100"
  by (simp_all add: calculateRiskAtTime_clamp)

section \<open>Long-horizon extrapolation\<close>

text \<open>
  C8: the \<open>cv30y.total\<close> of the combined results is the ten-year cardiovascular risk
  times 2.5, capped at 100.
\<close>

theorem cv30y_is_scaled_capped_tenYear:
  "CV30y.total (cv30y (getCombinedResults d)) =
     min (2.5 * CVRisk.tenYear (calculateCVRisk d)) 100"
  by (simp add: getCombinedResults_def Let_def mult.commute)

section \<open>Inputs that do not matter\<close>

text \<open>
  C9: the optimal counterfactual is a function of age, sex and diabetes status alone: two
  records that agree on these three fields get the same \<open>calculateOptimalRisk\<close> object,
  whatever their blood pressure, lipids, smoking, medication, renal and anthropometric
  fields are.
\<close>

theorem calculateOptimalRisk_depends_on_age_gender_diabetes:
  fixes d1 d2 :: MedicalData
  assumes "age d1 = age d2" and "gender d1 = gender d2"
    and "hasDiabetes d1 = hasDiabetes d2"
  shows "calculateOptimalRisk d1 = calculateOptimalRisk d2"
proof -
  have "indivSum (optimalData d1) = indivSum (optimalData d2)"
    by (rule indivSum_cong) (simp_all add: optimalData_fields evalAge_def assms)
  then have "calculateRiskAtTime (optimalData d1) t = calculateRiskAtTime (optimalData d2) t"
    for t
    by (rule calculateRiskAtTime_cong) (simp_all add: optimalData_fields assms)
  then show ?thesis
    by (simp add: calculateOptimalRisk_def calculateCVRisk_def)
qed

theorem calculateOptimalRisk_depends_on_age_gender_diabetes_witness:
  "age formData = age formDataOtherVitals \<and>
   gender formData = gender formDataOtherVitals \<and>
   hasDiabetes formData = hasDiabetes formDataOtherVitals \<and>
   systolicBP formData \<noteq> systolicBP formDataOtherVitals \<and>
   isSmoker formData \<noteq> isSmoker formDataOtherVitals \<and>
   calculateOptimalRisk formData = calculateOptimalRisk formDataOtherVitals"
proof -
  have h: "age formData = age formDataOtherVitals"
    "gender formData = gender formDataOtherVitals"
    "hasDiabetes formData = hasDiabetes formDataOtherVitals"
    by (simp_all add: formData_def formDataOtherVitals_def)
  have "systolicBP formData \<noteq> systolicBP formDataOtherVitals"
    "isSmoker formData \<noteq> isSmoker formDataOtherVitals"
    by (simp_all add: formData_def formDataOtherVitals_def)
  with h calculateOptimalRisk_depends_on_age_gender_diabetes [OF h] show ?thesis
    by blast
qed

text \<open>
  C10: the renal risk is a function of age, sex, eGFR and ACR alone: two records that
  agree on these four fields get the same \<open>calculateRenalRisk\<close> object; the flag
  \<open>useFullKfre\<close> and the optional phosphate, bicarbonate, calcium and albumin fields
  are never read.
\<close>

theorem calculateRenalRisk_depends_on_age_gender_eGFR_acr:
  fixes d1 d2 :: MedicalData
  assumes "age d1 = age d2" and "gender d1 = gender d2"
    and "eGFR d1 = eGFR d2" and "acr d1 = acr d2"
  shows "calculateRenalRisk d1 = calculateRenalRisk d2"
  unfolding calculateRenalRisk_def lp_def assms by (rule refl)

theorem calculateRenalRisk_depends_on_age_gender_eGFR_acr_witness:
  "age formData = age formDataOtherCardio \<and>
   gender formData = gender formDataOtherCardio \<and>
   eGFR formData = eGFR formDataOtherCardio \<and>
   acr formData = acr formDataOtherCardio \<and>
   useFullKfre formData \<noteq> useFullKfre formDataOtherCardio \<and>
   phosphate formData \<noteq> phosphate formDataOtherCardio \<and>
   bicarbonate formData \<noteq> bicarbonate formDataOtherCardio \<and>
   calcium formData \<noteq> calcium formDataOtherCardio \<and>
   albumin formData \<noteq> albumin formDataOtherCardio \<and>
   calculateRenalRisk formData = calculateRenalRisk formDataOtherCardio"
proof -
  have h: "age formData = age formDataOtherCardio"
    "gender formData = gender formDataOtherCardio"
    "eGFR formData = eGFR formDataOtherCardio"
    "acr formData = acr formDataOtherCardio"
    by (simp_all add: formData_def formDataOtherCardio_def)
  have "useFullKfre formData \<noteq> useFullKfre formDataOtherCardio"
    "phosphate formData \<noteq> phosphate formDataOtherCardio"
    "bicarbonate formData \<noteq> bicarbonate formDataOtherCardio"
    "calcium formData \<noteq> calcium formDataOtherCardio"
    "albumin formData \<noteq> albumin formDataOtherCardio"
    by (simp_all add: formData_def formDataOtherCardio_def)
  with h calculateRenalRisk_depends_on_age_gender_eGFR_acr [OF h] show ?thesis
    by blast
qed

section \<open>Ranges of the outputs\<close>

text \<open>
  C2: for a record whose age, total cholesterol, HDL cholesterol and systolic blood
  pressure are strictly positive, the five-, ten- and fifteen-year cardiovascular risks
  all lie in the closed interval from 0.1 to 100.  The function is total: it has no
  error result.
\<close>

theorem calculateCVRisk_in_range:
  assumes "validRecord d"
  shows "0.1 \<le> CVRisk.fiveYear (calculateCVRisk d) \<and> CVRisk.fiveYear (calculateCVRisk d) \<le> 100 \<and>
         0.1 \<le> CVRisk.tenYear (calculateCVRisk d) \<and> CVRisk.tenYear (calculateCVRisk d) \<le> 100 \<and>
         0.1 \<le> CVRisk.fifteenYear (calculateCVRisk d) \<and>
         CVRisk.fifteenYear (calculateCVRisk d) \<le> 100"
  using calculateRiskAtTime_bounds [of d 5] calculateRiskAtTime_bounds [of d 10]
    calculateRiskAtTime_bounds [of d 15]
  by (simp add: calculateCVRisk_def)

theorem calculateCVRisk_in_range_witness:
  "validRecord formData \<and>
   0.1 \<le> CVRisk.fiveYear (calculateCVRisk formData) \<and>
   CVRisk.fiveYear (calculateCVRisk formData) \<le> 100 \<and>
   0.1 \<le> CVRisk.tenYear (calculateCVRisk formData) \<and>
   CVRisk.tenYear (calculateCVRisk formData) \<le> 100 \<and>
   0.1 \<le> CVRisk.fifteenYear (calculateCVRisk formData) \<and>
   CVRisk.fifteenYear (calculateCVRisk formData) \<le> 100"
proof -
  have h: "validRecord formData"
    by (simp add: validRecord_def formData_def)
  from h calculateCVRisk_in_range [OF h] show ?thesis by blast
qed

lemma survival_powr_bounds:
  fixes s x :: real
  assumes "0 < s" and "s < 1"
  shows "0 < s powr exp x" and "s powr exp x < 1"
proof -
  show "0 < s powr exp x" using assms by simp
  have "s powr exp x < s powr 0"
    using assms by (intro powr_less_mono') simp_all
  then show "s powr exp x < 1" using assms by simp
qed

text \<open>
  C7: for a record with a strictly positive ACR, each renal output is
  \<open>(1 - S powr exp lp) * 100\<close> for the baseline survival \<open>S\<close> of its horizon (0.9832,
  0.9365 and 0.82, all strictly between 0 and 1) and the linear predictor \<open>lp\<close>, and
  therefore lies between 0 and 100 although nothing clamps it.
\<close>

theorem calculateRenalRisk_in_range:
  assumes "0 < acr d"
  shows "twoYear (calculateRenalRisk d) = (1 - 0.9832 powr exp (lp d)) * 100 \<and>
         RenalRisk.fiveYear (calculateRenalRisk d) = (1 - 0.9365 powr exp (lp d)) * 100 \<and>
         RenalRisk.tenYear (calculateRenalRisk d) = (1 - 0.82 powr exp (lp d)) * 100 \<and>
         0 \<le> twoYear (calculateRenalRisk d) \<and> twoYear (calculateRenalRisk d) \<le> 100 \<and>
         0 \<le> RenalRisk.fiveYear (calculateRenalRisk d) \<and>
         RenalRisk.fiveYear (calculateRenalRisk d) \<le> 100 \<and>
         0 \<le> RenalRisk.tenYear (calculateRenalRisk d) \<and>
         RenalRisk.tenYear (calculateRenalRisk d) \<le> 100"
proof -
  have two: "twoYear (calculateRenalRisk d) = (1 - 0.9832 powr exp (lp d)) * 100"
    and five: "RenalRisk.fiveYear (calculateRenalRisk d) = (1 - 0.9365 powr exp (lp d)) * 100"
    and ten: "RenalRisk.tenYear (calculateRenalRisk d) = (1 - 0.82 powr exp (lp d)) * 100"
    by (simp_all add: calculateRenalRisk_def)
  have b2: "0 < (0.9832::real) powr exp (lp d)" "(0.9832::real) powr exp (lp d) < 1"
    by (rule survival_powr_bounds; simp)+
  have b5: "0 < (0.9365::real) powr exp (lp d)" "(0.9365::real) powr exp (lp d) < 1"
    by (rule survival_powr_bounds; simp)+
  have b10: "0 < (0.82::real) powr exp (lp d)" "(0.82::real) powr exp (lp d) < 1"
    by (rule survival_powr_bounds; simp)+
  show ?thesis
    unfolding two five ten using b2 b5 b10 by simp
qed

theorem calculateRenalRisk_in_range_witness:
  "0 < acr formData \<and>
   0 \<le> twoYear (calculateRenalRisk formData) \<and> twoYear (calculateRenalRisk formData) \<le> 100 \<and>
   0 \<le> RenalRisk.fiveYear (calculateRenalRisk formData) \<and>
   RenalRisk.fiveYear (calculateRenalRisk formData) \<le> 100 \<and>
   0 \<le> RenalRisk.tenYear (calculateRenalRisk formData) \<and>
   RenalRisk.tenYear (calculateRenalRisk formData) \<le> 100"
proof -
  have h: "0 < acr formData" by (simp add: formData_def)
  from h calculateRenalRisk_in_range [OF h] show ?thesis by blast
qed

section \<open>Bounds on concrete logarithms and exponentials\<close>

lemma expLower_le_exp: "expLower x \<le> exp x"
proof -
  obtain t where t: "exp x = (\<Sum>m<8. x ^ m / fact m) + exp t / fact 8 * x ^ 8"
    using Maclaurin_exp_le [of x 8] by blast
  have "(\<Sum>m<8. x ^ m / fact m) = expLower x"
    by (simp add: expLower_def lessThan_Suc eval_nat_numeral fact_numeral)
  moreover have "0 \<le> exp t / fact 8 * x ^ 8"
    by (intro mult_nonneg_nonneg divide_nonneg_nonneg) (simp_all add: zero_le_even_power)
  ultimately show ?thesis using t by linarith
qed

lemma exp_ge_by_expLower:
  fixes a u :: real
  assumes "0 \<le> expLower (u / real k)" and "a \<le> expLower (u / real k) ^ k" and "0 < k"
  shows "a \<le> exp u"
proof -
  have "expLower (u / real k) ^ k \<le> exp (u / real k) ^ k"
    by (intro power_mono expLower_le_exp assms)
  also have "\<dots> = exp u"
    using assms(3) by (simp add: exp_of_nat_mult [symmetric])
  finally show ?thesis using assms(2) by linarith
qed

lemma exp_le_by_expLower:
  fixes a l :: real
  assumes "0 < a" and "0 \<le> expLower (- l / real k)"
    and "1 \<le> a * expLower (- l / real k) ^ k" and "0 < k"
  shows "exp l \<le> a"
proof -
  have "expLower (- l / real k) ^ k \<le> exp (- l)"
    using assms(2,4) by (intro exp_ge_by_expLower [where k = k]) simp_all
  then have "a * expLower (- l / real k) ^ k \<le> a * exp (- l)"
    using assms(1) by (simp add: mult_left_mono)
  then have "1 \<le> a * exp (- l)" using assms(3) by linarith
  then show ?thesis by (simp add: exp_minus field_simps)
qed

lemma ln_le_by_expLower:
  fixes a u :: real
  assumes "0 < a" and "0 \<le> expLower (u / real k)" and "a \<le> expLower (u / real k) ^ k"
    and "0 < k"
  shows "ln a \<le> u"
proof -
  have "a \<le> exp u" using assms(2-4) by (rule exp_ge_by_expLower)
  then show ?thesis using ln_le_cancel_iff [of a "exp u"] assms(1) by simp
qed

lemma ln_ge_by_expLower:
  fixes a l :: real
  assumes "0 < a" and "0 \<le> expLower (- l / real k)"
    and "1 \<le> a * expLower (- l / real k) ^ k" and "0 < k"
  shows "l \<le> ln a"
proof -
  have "exp l \<le> a" using assms by (rule exp_le_by_expLower)
  then show ?thesis using assms(1) by (simp add: ln_ge_iff)
qed

lemma ln_30_bounds: "3.401 \<le> ln (30::real)" "ln (30::real) \<le> 3.402"
proof -
  show "3.401 \<le> ln (30::real)"
    by (rule ln_ge_by_expLower [where k = 8]) (simp_all add: expLower_def power_divide)
  show "ln (30::real) \<le> 3.402"
    by (rule ln_le_by_expLower [where k = 8]) (simp_all add: expLower_def power_divide)
qed

lemma ln_55_bounds: "4.007 \<le> ln (55::real)" "ln (55::real) \<le> 4.008"
proof -
  show "4.007 \<le> ln (55::real)"
    by (rule ln_ge_by_expLower [where k = 8]) (simp_all add: expLower_def power_divide)
  show "ln (55::real) \<le> 4.008"
    by (rule ln_le_by_expLower [where k = 8]) (simp_all add: expLower_def power_divide)
qed

lemma ln_70_bounds: "4.248 \<le> ln (70::real)" "ln (70::real) \<le> 4.249"
proof -
  show "4.248 \<le> ln (70::real)"
    by (rule ln_ge_by_expLower [where k = 8]) (simp_all add: expLower_def power_divide)
  show "ln (70::real) \<le> 4.249"
    by (rule ln_le_by_expLower [where k = 8]) (simp_all add: expLower_def power_divide)
qed

lemma ln_100_bounds: "4.605 \<le> ln (100::real)" "ln (100::real) \<le> 4.606"
proof -
  show "4.605 \<le> ln (100::real)"
    by (rule ln_ge_by_expLower [where k = 8]) (simp_all add: expLower_def power_divide)
  show "ln (100::real) \<le> 4.606"
    by (rule ln_le_by_expLower [where k = 8]) (simp_all add: expLower_def power_divide)
qed

lemma ln_115_bounds: "4.744 \<le> ln (115::real)" "ln (115::real) \<le> 4.745"
proof -
  show "4.744 \<le> ln (115::real)"
    by (rule ln_ge_by_expLower [where k = 8]) (simp_all add: expLower_def power_divide)
  show "ln (115::real) \<le> 4.745"
    by (rule ln_le_by_expLower [where k = 8]) (simp_all add: expLower_def power_divide)
qed

lemma ln_160_bounds: "5.075 \<le> ln (160::real)" "ln (160::real) \<le> 5.076"
proof -
  show "5.075 \<le> ln (160::real)"
    by (rule ln_ge_by_expLower [where k = 8]) (simp_all add: expLower_def power_divide)
  show "ln (160::real) \<le> 5.076"
    by (rule ln_le_by_expLower [where k = 8]) (simp_all add: expLower_def power_divide)
qed

lemma ln_74_upper: "ln (74::real) \<le> 4.31"
  by (rule ln_le_by_expLower [where k = 8]) (simp_all add: expLower_def power_divide)

lemma ln_78_upper: "ln (78::real) \<le> 4.36"
  by (rule ln_le_by_expLower [where k = 8]) (simp_all add: expLower_def power_divide)

lemma ln_baseline_female_lower: "- 0.035 \<le> ln (0.9665::real)"
  by (rule ln_ge_by_expLower [where k = 1]) (simp_all add: expLower_def power_divide)

lemma exp_minus_4_upper: "exp (- 4 :: real) \<le> 0.019"
  by (rule exp_le_by_expLower [where k = 4]) (simp_all add: expLower_def power_divide)

lemma exp_1_lower: "(2::real) \<le> exp 1"
  by (rule exp_ge_by_expLower [where k = 1]) (simp_all add: expLower_def power_divide)

section \<open>The risk before and after the clamp\<close>

text \<open>
  In this real-valued model the percentage before the clamp stays strictly below 100 and
  strictly increases with the horizon, so that only the floor 0.1 of the clamp is ever
  active.  The double-precision code differs at saturation only: once
  \<open>1 - Math.pow(st, riskFactor)\<close> rounds to 1 it returns exactly 100 (75 with statins) at
  that horizon and at every later one.  The lemmas of this section are facts of the
  model; the statements about the order of the horizons and about statins further down
  exclude that ceiling or hold at it as well.
\<close>

lemma riskBeforeClamp_eq:
  "riskBeforeClamp d t =
     (if onStatins d then 0.75 else 1) * (100 * (1 - s10 d powr (t / 10 * riskFactor d)))"
  by (simp add: riskBeforeClamp_def Let_def powr_powr)

lemma riskBeforeClamp_statins:
  assumes "\<not> onStatins d"
  shows "riskBeforeClamp (d\<lparr>onStatins := True\<rparr>) t = 0.75 * riskBeforeClamp d t"
proof -
  have "indivSum (d\<lparr>onStatins := True\<rparr>) = indivSum d"
    by (rule indivSum_cong) (simp_all add: evalAge_def)
  then have "riskFactor (d\<lparr>onStatins := True\<rparr>) = riskFactor d"
    by (simp add: riskFactor_def meanSum_def)
  moreover have "s10 (d\<lparr>onStatins := True\<rparr>) = s10 d"
    by (simp add: s10_def)
  ultimately show ?thesis
    using assms by (simp add: riskBeforeClamp_eq)
qed

lemma riskBeforeClamp_less_100: "riskBeforeClamp d t < 100"
proof -
  define q where "q = s10 d powr (t / 10 * riskFactor d)"
  have "0 < q"
    unfolding q_def using s10_bounds(1) [of d] by simp
  moreover have "riskBeforeClamp d t = (if onStatins d then 0.75 else 1) * (100 * (1 - q))"
    by (simp only: riskBeforeClamp_eq q_def)
  ultimately show ?thesis
    by (cases "onStatins d") simp_all
qed

lemma calculateRiskAtTime_floor:
  "calculateRiskAtTime d t = max (riskBeforeClamp d t) 0.1"
  using riskBeforeClamp_less_100 [of d t] by (simp add: calculateRiskAtTime_clamp)

lemma riskBeforeClamp_strict_mono:
  assumes "t1 < t2"
  shows "riskBeforeClamp d t1 < riskBeforeClamp d t2"
proof -
  have "t1 / 10 * riskFactor d < t2 / 10 * riskFactor d"
    using assms riskFactor_pos [of d] by simp
  then have "s10 d powr (t2 / 10 * riskFactor d) < s10 d powr (t1 / 10 * riskFactor d)"
    using s10_bounds [of d] by (intro powr_less_mono') simp_all
  then show ?thesis
    unfolding riskBeforeClamp_eq by (cases "onStatins d") simp_all
qed

lemma calculateRiskAtTime_mono:
  assumes "t1 < t2"
  shows "calculateRiskAtTime d t1 \<le> calculateRiskAtTime d t2"
  using riskBeforeClamp_strict_mono [OF assms, of d] by (simp add: calculateRiskAtTime_floor)

lemma calculateRiskAtTime_strict_mono:
  assumes "t1 < t2" and "0.1 < calculateRiskAtTime d t1"
  shows "calculateRiskAtTime d t1 < calculateRiskAtTime d t2"
  using riskBeforeClamp_strict_mono [OF assms(1), of d] assms(2)
  by (simp add: calculateRiskAtTime_floor)

section \<open>Two concrete patients\<close>

lemma lowRiskPatient_fields:
  "gender lowRiskPatient = FEMALE" "evalAge lowRiskPatient = 30"
  "totalCholesterol lowRiskPatient = 160" "hdlCholesterol lowRiskPatient = 100"
  "systolicBP lowRiskPatient = 115" "\<not> isSmoker lowRiskPatient"
  "\<not> hasDiabetes lowRiskPatient" "\<not> onHypertensionMeds lowRiskPatient"
  "\<not> onStatins lowRiskPatient" "validRecord lowRiskPatient"
  by (simp_all add: lowRiskPatient_def evalAge_def validRecord_def)

lemma lowRiskPatient_predictor: "indivSum lowRiskPatient - meanSum lowRiskPatient \<le> - 4"
proof -
  define L T H S :: real where "L = ln 30" and "T = ln 160" and "H = ln 100" and "S = ln 115"
  have L: "3.401 \<le> L" "L \<le> 3.402" and T: "5.075 \<le> T" "T \<le> 5.076"
    and H: "4.605 \<le> H" "H \<le> 4.606" and S: "4.744 \<le> S" "S \<le> 4.745"
    unfolding L_def T_def H_def S_def
    using ln_30_bounds ln_160_bounds ln_100_bounds ln_115_bounds by simp_all
  have LL: "L * L \<le> 3.402 * 3.402"
    using L by (intro mult_mono) simp_all
  have LT: "3.401 * 5.075 \<le> L * T"
    using L T by (intro mult_mono) simp_all
  have LH: "L * H \<le> 3.402 * 4.606"
    using L H by (intro mult_mono) simp_all
  have "indivSum lowRiskPatient =
      - 29.799 * L + 4.884 * (L * L) + 13.540 * T - 3.114 * (L * T) - 13.578 * H
      + 3.149 * (L * H) + 1.957 * S"
    by (simp add: indivSum_FEMALE lowRiskPatient_fields L_def T_def H_def S_def)
  moreover have "meanSum lowRiskPatient = - 29.182"
    by (simp add: meanSum_def lowRiskPatient_fields)
  ultimately show ?thesis
    using L T H S LL LT LH by simp
qed

lemma lowRiskPatient_riskFactor: "riskFactor lowRiskPatient \<le> 0.019"
proof -
  have "riskFactor lowRiskPatient \<le> exp (- 4)"
    unfolding riskFactor_def using lowRiskPatient_predictor by simp
  then show ?thesis using exp_minus_4_upper by linarith
qed

lemma small_riskFactor_floor:
  assumes "gender d = FEMALE" and "riskFactor d \<le> 0.019" and "0 \<le> t" and "t \<le> 15"
  shows "calculateRiskAtTime d t = 0.1"
proof -
  define x where "x = t / 10 * riskFactor d"
  have x: "0 \<le> x" "x \<le> 1.5 * 0.019"
    unfolding x_def using assms(2-4) riskFactor_pos [of d]
    by (simp, intro mult_mono) simp_all
  have "- (1.5 * 0.019 * 0.035) \<le> x * (- 0.035)"
    using x by simp
  also have "\<dots> \<le> x * ln 0.9665"
    using x(1) ln_baseline_female_lower by (intro mult_left_mono) simp_all
  finally have "1 - 1.5 * 0.019 * 0.035 \<le> 1 + x * ln 0.9665"
    by simp
  also have "\<dots> \<le> exp (x * ln 0.9665)"
    by (rule exp_ge_add_one_self)
  also have "\<dots> = s10 d powr x"
    using assms(1) by (simp add: s10_def powr_def mult.commute)
  finally have q: "1 - 1.5 * 0.019 * 0.035 \<le> s10 d powr x" .
  have "s10 d powr x \<le> s10 d powr 0"
    using s10_bounds [of d] x(1) by (intro powr_mono') simp_all
  then have q1: "s10 d powr x \<le> 1"
    using s10_bounds(1) [of d] by simp
  have "riskBeforeClamp d t = (if onStatins d then 0.75 else 1) * (100 * (1 - s10 d powr x))"
    by (simp only: riskBeforeClamp_eq x_def)
  then have "riskBeforeClamp d t \<le> 0.1"
    using q q1 by (cases "onStatins d") simp_all
  then show ?thesis
    by (simp add: calculateRiskAtTime_floor)
qed

lemma highRiskPatient_fields:
  "gender highRiskPatient = MALE" "evalAge highRiskPatient = 70"
  "totalCholesterol highRiskPatient = 160" "hdlCholesterol highRiskPatient = 55"
  "systolicBP highRiskPatient = 115" "\<not> isSmoker highRiskPatient"
  "hasDiabetes highRiskPatient" "\<not> onHypertensionMeds highRiskPatient"
  "\<not> onStatins highRiskPatient" "validRecord highRiskPatient"
  by (simp_all add: highRiskPatient_def evalAge_def validRecord_def)

lemma highRiskPatient_predictor: "1 \<le> indivSum highRiskPatient - meanSum highRiskPatient"
proof -
  define L T H S :: real where "L = ln 70" and "T = ln 160" and "H = ln 55" and "S = ln 115"
  have L: "4.248 \<le> L" "L \<le> 4.249" and T: "5.075 \<le> T" "T \<le> 5.076"
    and H: "4.007 \<le> H" "H \<le> 4.008" and S: "4.744 \<le> S" "S \<le> 4.745"
    unfolding L_def T_def H_def S_def
    using ln_70_bounds ln_160_bounds ln_55_bounds ln_115_bounds by simp_all
  have LT: "L * T \<le> 4.249 * 5.076"
    using L T by (intro mult_mono) simp_all
  have LH: "4.248 * 4.007 \<le> L * H"
    using L H by (intro mult_mono) simp_all
  have "indivSum highRiskPatient =
      12.344 * L + 11.853 * T - 2.664 * (L * T) - 7.990 * H + 1.769 * (L * H)
      + 1.764 * S + 0.658"
    by (simp add: indivSum_MALE highRiskPatient_fields L_def T_def H_def S_def)
  moreover have "meanSum highRiskPatient = 61.1816"
    by (simp add: meanSum_def highRiskPatient_fields)
  ultimately show ?thesis
    using L T H S LT LH by simp
qed

lemma highRiskPatient_riskFactor: "2 \<le> riskFactor highRiskPatient"
proof -
  have "exp 1 \<le> riskFactor highRiskPatient"
    unfolding riskFactor_def using highRiskPatient_predictor by simp
  then show ?thesis using exp_1_lower by linarith
qed

lemma large_riskFactor_risk:
  assumes "gender d = MALE" and "2 \<le> riskFactor d" and "5 \<le> t"
  shows "(if onStatins d then 0.75 else 1) * 8.56 \<le> riskBeforeClamp d t"
proof -
  have "5 * 2 \<le> t * riskFactor d"
    using assms(2,3) by (intro mult_mono) simp_all
  then have "1 \<le> t / 10 * riskFactor d"
    by simp
  then have "s10 d powr (t / 10 * riskFactor d) \<le> s10 d powr 1"
    using s10_bounds [of d] by (intro powr_mono') simp_all
  then have "s10 d powr (t / 10 * riskFactor d) \<le> 0.9144"
    using assms(1) by (simp add: s10_def)
  then show ?thesis
    unfolding riskBeforeClamp_eq by (cases "onStatins d") simp_all
qed

section \<open>Stratification\<close>

text \<open>
  A record engineered for a given ten-year risk: changing only the systolic pressure of
  the initial form data, every percentage from 0.1 up to (but excluding) 100 is the
  ten-year cardiovascular risk of some record, while the five-year renal risk stays
  below 15.
\<close>

lemma engineered_fields:
  "gender (engineered p) = MALE" "evalAge (engineered p) = 50"
  "totalCholesterol (engineered p) = 250" "hdlCholesterol (engineered p) = 38"
  "systolicBP (engineered p) = engineeredSBP p" "\<not> isSmoker (engineered p)"
  "\<not> hasDiabetes (engineered p)" "onHypertensionMeds (engineered p)"
  "\<not> onStatins (engineered p)"
  "age (engineered p) = 50" "eGFR (engineered p) = 56.4" "acr (engineered p) = 175"
  by (simp_all add: engineered_def formData_def evalAge_def)

lemma engineered_tenYear:
  assumes "0.1 \<le> p" and "p < 100"
  shows "calculateRiskAtTime (engineered p) 10 = p"
proof -
  define q where "q = 1 - p / 100"
  define r where "r = ln q / ln 0.9144"
  define rest :: real where "rest =
      12.344 * ln 50 + 11.853 * ln 250 - 2.664 * ln 50 * ln 250
      - 7.990 * ln 38 + 1.769 * ln 50 * ln 38"
  have q: "0 < q" "q < 1"
    unfolding q_def using assms by simp_all
  have "ln q < 0" and b: "ln (0.9144::real) < 0"
    using q by simp_all
  then have r: "0 < r"
    unfolding r_def by (simp add: divide_neg_neg)
  have sbp: "ln (engineeredSBP p) = (61.1816 + ln r - rest) / 1.797"
    by (simp add: engineeredSBP_def r_def q_def rest_def)
  have "indivSum (engineered p) = rest + 1.797 * ln (engineeredSBP p)"
    by (simp add: indivSum_MALE engineered_fields rest_def)
  also have "\<dots> = 61.1816 + ln r"
    unfolding sbp by (simp add: field_simps)
  finally have "indivSum (engineered p) - meanSum (engineered p) = ln r"
    by (simp add: meanSum_def engineered_fields)
  then have rf: "riskFactor (engineered p) = r"
    using r by (simp add: riskFactor_def)
  have "r * ln 0.9144 = ln q"
    unfolding r_def using b by simp
  then have "(0.9144::real) powr r = q"
    using q(1) by (simp add: powr_def mult.commute)
  then have "s10 (engineered p) powr (10 / 10 * riskFactor (engineered p)) = q"
    by (simp add: rf s10_def engineered_fields)
  then have "riskBeforeClamp (engineered p) 10 = p"
    unfolding riskBeforeClamp_eq by (simp add: engineered_fields q_def)
  then show ?thesis
    using assms(1) by (simp add: calculateRiskAtTime_floor)
qed

lemma ln_175_upper: "ln (175::real) \<le> 6"
  by (rule ln_le_by_expLower [where k = 4]) (simp_all add: expLower_def power_divide)

lemma engineered_renal_fiveYear: "RenalRisk.fiveYear (calculateRenalRisk (engineered p)) \<le> 15"
proof -
  have "lp (engineered p) =
      - 0.2201 * (50 / 10 - 7.036) + 0.2467 * (1 - 0.5642) - 0.5567 * (56.4 / 5 - 7.222)
      + 0.4510 * (ln 175 - 5.137)"
    by (simp add: lp_def engineered_fields)
  then have "lp (engineered p) \<le> 0"
    using ln_175_upper by simp
  then have "exp (lp (engineered p)) \<le> 1"
    by simp
  then have "(0.9365::real) powr 1 \<le> 0.9365 powr exp (lp (engineered p))"
    by (intro powr_mono') simp_all
  then show ?thesis
    by (simp add: calculateRenalRisk_def)
qed

text \<open>
  C1: the combined level is decided by the ten-year cardiovascular risk and the five-year
  renal risk alone, through four tiers tried from the most severe down, each with strict
  comparisons: very high above 20 (cardiovascular) or above 15 (renal), else high above
  10 or 10, else moderate above 5 or 5, else low.  The tiers exclude one another.  In
  particular a record with a ten-year risk of exactly 20 (and a renal risk that does not
  reach the top tier by itself) is high, and a record with a ten-year risk of 20.0001 is
  very high.
\<close>

theorem combinedLevel_tiers:
  "combinedLevel (getCombinedResults d) =
     (if CVRisk.tenYear (calculateCVRisk d) > 20 \<or> RenalRisk.fiveYear (calculateRenalRisk d) > 15
      then very_high
      else if CVRisk.tenYear (calculateCVRisk d) > 10 \<or> RenalRisk.fiveYear (calculateRenalRisk d) > 10
      then high
      else if CVRisk.tenYear (calculateCVRisk d) > 5 \<or> RenalRisk.fiveYear (calculateRenalRisk d) > 5
      then moderate
      else low) \<and>
   (combinedLevel (getCombinedResults d) = very_high) =
     (CVRisk.tenYear (calculateCVRisk d) > 20 \<or> RenalRisk.fiveYear (calculateRenalRisk d) > 15) \<and>
   (combinedLevel (getCombinedResults d) = high) =
     (CVRisk.tenYear (calculateCVRisk d) \<le> 20 \<and> RenalRisk.fiveYear (calculateRenalRisk d) \<le> 15 \<and>
      (CVRisk.tenYear (calculateCVRisk d) > 10 \<or> RenalRisk.fiveYear (calculateRenalRisk d) > 10)) \<and>
   (combinedLevel (getCombinedResults d) = moderate) =
     (CVRisk.tenYear (calculateCVRisk d) \<le> 10 \<and> RenalRisk.fiveYear (calculateRenalRisk d) \<le> 10 \<and>
      (CVRisk.tenYear (calculateCVRisk d) > 5 \<or> RenalRisk.fiveYear (calculateRenalRisk d) > 5)) \<and>
   (combinedLevel (getCombinedResults d) = low) =
     (CVRisk.tenYear (calculateCVRisk d) \<le> 5 \<and> RenalRisk.fiveYear (calculateRenalRisk d) \<le> 5) \<and>
   (CVRisk.tenYear (calculateCVRisk d) = 20 \<and> RenalRisk.fiveYear (calculateRenalRisk d) \<le> 15
      \<longrightarrow> combinedLevel (getCombinedResults d) = high) \<and>
   (CVRisk.tenYear (calculateCVRisk d) = 20.0001
      \<longrightarrow> combinedLevel (getCombinedResults d) = very_high)"
  by (auto simp add: getCombinedResults_def Let_def)

theorem combinedLevel_tiers_witness:
  "CVRisk.tenYear (calculateCVRisk (engineered 20)) = 20 \<and>
   RenalRisk.fiveYear (calculateRenalRisk (engineered 20)) \<le> 15 \<and>
   combinedLevel (getCombinedResults (engineered 20)) = high \<and>
   CVRisk.tenYear (calculateCVRisk (engineered 20.0001)) = 20.0001 \<and>
   combinedLevel (getCombinedResults (engineered 20.0001)) = very_high"
proof -
  have a: "CVRisk.tenYear (calculateCVRisk (engineered 20)) = 20"
    using engineered_tenYear [of 20] by (simp add: calculateCVRisk_def)
  have b: "CVRisk.tenYear (calculateCVRisk (engineered 20.0001)) = 20.0001"
    using engineered_tenYear [of "20.0001"] by (simp add: calculateCVRisk_def)
  from combinedLevel_tiers [of "engineered 20"] combinedLevel_tiers [of "engineered 20.0001"]
    a b engineered_renal_fiveYear [of 20]
  show ?thesis by blast
qed

section \<open>Monotonicity in the horizon\<close>

text \<open>
  C3, as stated, fails: the final clamp raises every risk below 0.1 to 0.1, so the three
  outputs of a record of very low risk are all 0.1 and none is smaller than the next.
  (The strict order also fails at the other end, which only double precision shows: for
  a very large risk factor \<open>1 - Math.pow(st, riskFactor)\<close> rounds to 1, and the code
  returns exactly 100, or 75 with statins, at the ten- and the fifteen-year horizon.)
\<close>

theorem horizon_strict_order_counterexample:
  "validRecord lowRiskPatient \<and>
   \<not> CVRisk.fiveYear (calculateCVRisk lowRiskPatient)
       < CVRisk.tenYear (calculateCVRisk lowRiskPatient) \<and>
   \<not> CVRisk.tenYear (calculateCVRisk lowRiskPatient)
       < CVRisk.fifteenYear (calculateCVRisk lowRiskPatient)"
proof -
  have "calculateRiskAtTime lowRiskPatient t = 0.1" if "0 \<le> t" and "t \<le> 15" for t
    using lowRiskPatient_fields(1) lowRiskPatient_riskFactor that
    by (rule small_riskFactor_floor)
  from this [of 5] this [of 10] this [of 15] show ?thesis
    by (simp add: calculateCVRisk_def lowRiskPatient_fields)
qed

text \<open>
  C3, amended: for a valid record the three outputs are ordered,
  \<open>fiveYear \<le> tenYear \<le> fifteenYear\<close>, and strictly so,
  \<open>fiveYear < tenYear < fifteenYear\<close>, whenever they lie between the two plateaus: the
  five-year output above the floor 0.1 of the clamp, and the fifteen-year output below
  the value at which the risk saturates (100 without statins, 75 with statins).
\<close>

theorem horizon_order:
  assumes "validRecord d"
  shows "CVRisk.fiveYear (calculateCVRisk d) \<le> CVRisk.tenYear (calculateCVRisk d) \<and>
         CVRisk.tenYear (calculateCVRisk d) \<le> CVRisk.fifteenYear (calculateCVRisk d) \<and>
         (0.1 < CVRisk.fiveYear (calculateCVRisk d) \<and>
          CVRisk.fifteenYear (calculateCVRisk d) < (if onStatins d then 75 else 100) \<longrightarrow>
            CVRisk.fiveYear (calculateCVRisk d) < CVRisk.tenYear (calculateCVRisk d) \<and>
            CVRisk.tenYear (calculateCVRisk d) < CVRisk.fifteenYear (calculateCVRisk d))"
proof -
  have a: "calculateRiskAtTime d 5 \<le> calculateRiskAtTime d 10"
    and b: "calculateRiskAtTime d 10 \<le> calculateRiskAtTime d 15"
    by (rule calculateRiskAtTime_mono; simp)+
  have c: "calculateRiskAtTime d 5 < calculateRiskAtTime d 10"
    if "0.1 < calculateRiskAtTime d 5"
    using that by (intro calculateRiskAtTime_strict_mono) simp_all
  have e: "calculateRiskAtTime d 10 < calculateRiskAtTime d 15"
    if "0.1 < calculateRiskAtTime d 5"
    using that a by (intro calculateRiskAtTime_strict_mono) simp_all
  show ?thesis
    using a b c e by (simp add: calculateCVRisk_def)
qed

lemma highRiskPatient_fiveYear: "8.56 \<le> calculateRiskAtTime highRiskPatient 5"
proof -
  have "8.56 \<le> riskBeforeClamp highRiskPatient 5"
    using large_riskFactor_risk [of highRiskPatient 5] highRiskPatient_riskFactor
    by (simp add: highRiskPatient_fields)
  then show ?thesis
    by (simp add: calculateRiskAtTime_floor)
qed

lemma highRiskPatient_fifteenYear: "calculateRiskAtTime highRiskPatient 15 < 100"
  using riskBeforeClamp_less_100 [of highRiskPatient 15]
  by (simp add: calculateRiskAtTime_floor)

theorem horizon_order_witness:
  "validRecord highRiskPatient \<and>
   0.1 < CVRisk.fiveYear (calculateCVRisk highRiskPatient) \<and>
   CVRisk.fifteenYear (calculateCVRisk highRiskPatient)
     < (if onStatins highRiskPatient then 75 else 100) \<and>
   CVRisk.fiveYear (calculateCVRisk highRiskPatient)
     \<le> CVRisk.tenYear (calculateCVRisk highRiskPatient) \<and>
   CVRisk.tenYear (calculateCVRisk highRiskPatient)
     \<le> CVRisk.fifteenYear (calculateCVRisk highRiskPatient) \<and>
   CVRisk.fiveYear (calculateCVRisk highRiskPatient)
     < CVRisk.tenYear (calculateCVRisk highRiskPatient) \<and>
   CVRisk.tenYear (calculateCVRisk highRiskPatient)
     < CVRisk.fifteenYear (calculateCVRisk highRiskPatient)"
proof -
  have v: "validRecord highRiskPatient" by (rule highRiskPatient_fields)
  have f: "0.1 < CVRisk.fiveYear (calculateCVRisk highRiskPatient)"
    using highRiskPatient_fiveYear by (simp add: calculateCVRisk_def)
  have g: "CVRisk.fifteenYear (calculateCVRisk highRiskPatient)
      < (if onStatins highRiskPatient then 75 else 100)"
    using highRiskPatient_fifteenYear
    by (simp add: calculateCVRisk_def highRiskPatient_fields)
  from horizon_order [OF v] v f g show ?thesis by blast
qed

section \<open>The effect of statins\<close>

text \<open>
  C4, as stated, fails: the bound 100/0.75 only keeps the upper end of the clamp away.
  On a record of very low risk the clamp returns 0.1 with and without statins, and 0.1 is
  not 0.75 times 0.1.  (Away from the clamp the two outputs still are not exactly in the
  ratio 0.75 in double precision: the code rounds \<open>(risk * 0.75) * 100\<close>, which can
  differ from 0.75 times the rounded \<open>risk * 100\<close> in the last bit.)
\<close>

theorem statin_factor_counterexample:
  "validRecord lowRiskPatient \<and> \<not> onStatins lowRiskPatient \<and>
   riskBeforeClamp lowRiskPatient 5 < 100 / 0.75 \<and>
   riskBeforeClamp lowRiskPatient 10 < 100 / 0.75 \<and>
   riskBeforeClamp lowRiskPatient 15 < 100 / 0.75 \<and>
   CVRisk.tenYear (calculateCVRisk (lowRiskPatient\<lparr>onStatins := True\<rparr>))
     \<noteq> 0.75 * CVRisk.tenYear (calculateCVRisk lowRiskPatient)"
proof -
  let ?on = "lowRiskPatient\<lparr>onStatins := True\<rparr>"
  have off: "calculateRiskAtTime lowRiskPatient 10 = 0.1"
    using lowRiskPatient_fields(1) lowRiskPatient_riskFactor
    by (rule small_riskFactor_floor) simp_all
  have "indivSum ?on = indivSum lowRiskPatient"
    by (rule indivSum_cong) (simp_all add: evalAge_def)
  then have "riskFactor ?on = riskFactor lowRiskPatient"
    by (simp add: riskFactor_def meanSum_def)
  then have rf: "riskFactor ?on \<le> 0.019"
    using lowRiskPatient_riskFactor by simp
  have g: "gender ?on = FEMALE"
    by (simp add: lowRiskPatient_fields)
  have on: "calculateRiskAtTime ?on 10 = 0.1"
    using g rf by (rule small_riskFactor_floor) simp_all
  have less: "riskBeforeClamp lowRiskPatient t < 100 / 0.75" for t
    using riskBeforeClamp_less_100 [of lowRiskPatient t] by simp
  show ?thesis
    using less [of 5] less [of 10] less [of 15]
    by (simp add: calculateCVRisk_def on off lowRiskPatient_fields)
qed

lemma statin_toggle_parameters:
  "s10 (d\<lparr>onStatins := True\<rparr>) = s10 d"
  "riskFactor (d\<lparr>onStatins := True\<rparr>) = riskFactor d"
proof -
  show "s10 (d\<lparr>onStatins := True\<rparr>) = s10 d"
    by (simp add: s10_def)
  have "indivSum (d\<lparr>onStatins := True\<rparr>) = indivSum d"
    by (rule indivSum_cong) (simp_all add: evalAge_def)
  then show "riskFactor (d\<lparr>onStatins := True\<rparr>) = riskFactor d"
    by (simp add: riskFactor_def meanSum_def)
qed

lemma statin_toggle_output:
  assumes "\<not> onStatins d"
  shows "calculateRiskAtTime (d\<lparr>onStatins := True\<rparr>) t \<le> calculateRiskAtTime d t"
    and "0.1 < calculateRiskAtTime d t \<Longrightarrow>
      calculateRiskAtTime (d\<lparr>onStatins := True\<rparr>) t < calculateRiskAtTime d t"
    and "0.1 / 0.75 \<le> calculateRiskAtTime d t \<Longrightarrow>
      \<bar>calculateRiskAtTime (d\<lparr>onStatins := True\<rparr>) t - 0.75 * calculateRiskAtTime d t\<bar>
        \<le> calculateRiskAtTime d t / 10 ^ 9"
proof -
  define x where "x = riskBeforeClamp d t"
  have on: "calculateRiskAtTime (d\<lparr>onStatins := True\<rparr>) t = max (0.75 * x) 0.1"
    and off: "calculateRiskAtTime d t = max x 0.1"
    unfolding x_def using riskBeforeClamp_statins [OF assms, of t]
    by (simp_all add: calculateRiskAtTime_floor)
  show "calculateRiskAtTime (d\<lparr>onStatins := True\<rparr>) t \<le> calculateRiskAtTime d t"
    unfolding on off by simp
  show "calculateRiskAtTime (d\<lparr>onStatins := True\<rparr>) t < calculateRiskAtTime d t"
    if "0.1 < calculateRiskAtTime d t"
  proof -
    have "0.1 < x"
      using that unfolding off by (simp add: max_def split: if_splits)
    then show ?thesis
      unfolding on off by (simp add: max_def)
  qed
  show "\<bar>calculateRiskAtTime (d\<lparr>onStatins := True\<rparr>) t - 0.75 * calculateRiskAtTime d t\<bar>
        \<le> calculateRiskAtTime d t / 10 ^ 9"
    if "0.1 / 0.75 \<le> calculateRiskAtTime d t"
  proof -
    have "0.1 / 0.75 \<le> x"
      using that unfolding off by (simp add: max_def split: if_splits)
    then show ?thesis
      unfolding on off by (simp add: max_def)
  qed
qed

text \<open>
  C4, amended: the factor 0.75 is applied to the risk after the survival exponentiation
  and before the scaling to a percentage and the final clamp.  For a valid record that
  is not on statins, switching statins on leaves the baseline survival and the risk
  factor as they are and turns the output \<open>clamp (risk * 100)\<close> of every horizon into
  \<open>clamp ((risk * 0.75) * 100)\<close>, for the same \<open>risk = 1 - (s10 powr (t / 10)) powr
  riskFactor\<close>.  The five-, ten- and fifteen-year outputs therefore never increase; each
  of them that is above the floor 0.1 strictly decreases; and each of them that is at
  least 0.1/0.75 becomes 0.75 times itself up to a relative error of one part in
  \<open>10 ^ 9\<close> (nothing is promised about the last bits of the two products).
\<close>

theorem statin_factor:
  assumes "validRecord d" and "\<not> onStatins d"
  shows "calculateRiskAtTime (d\<lparr>onStatins := True\<rparr>) t
           = min (max ((1 - (s10 d powr (t / 10)) powr riskFactor d) * 0.75 * 100) 0.1) 100 \<and>
         calculateRiskAtTime d t
           = min (max ((1 - (s10 d powr (t / 10)) powr riskFactor d) * 100) 0.1) 100 \<and>
         CVRisk.fiveYear (calculateCVRisk (d\<lparr>onStatins := True\<rparr>))
           \<le> CVRisk.fiveYear (calculateCVRisk d) \<and>
         CVRisk.tenYear (calculateCVRisk (d\<lparr>onStatins := True\<rparr>))
           \<le> CVRisk.tenYear (calculateCVRisk d) \<and>
         CVRisk.fifteenYear (calculateCVRisk (d\<lparr>onStatins := True\<rparr>))
           \<le> CVRisk.fifteenYear (calculateCVRisk d) \<and>
         (0.1 < CVRisk.fiveYear (calculateCVRisk d) \<longrightarrow>
            CVRisk.fiveYear (calculateCVRisk (d\<lparr>onStatins := True\<rparr>))
              < CVRisk.fiveYear (calculateCVRisk d)) \<and>
         (0.1 < CVRisk.tenYear (calculateCVRisk d) \<longrightarrow>
            CVRisk.tenYear (calculateCVRisk (d\<lparr>onStatins := True\<rparr>))
              < CVRisk.tenYear (calculateCVRisk d)) \<and>
         (0.1 < CVRisk.fifteenYear (calculateCVRisk d) \<longrightarrow>
            CVRisk.fifteenYear (calculateCVRisk (d\<lparr>onStatins := True\<rparr>))
              < CVRisk.fifteenYear (calculateCVRisk d)) \<and>
         (0.1 / 0.75 \<le> CVRisk.fiveYear (calculateCVRisk d) \<longrightarrow>
            \<bar>CVRisk.fiveYear (calculateCVRisk (d\<lparr>onStatins := True\<rparr>))
               - 0.75 * CVRisk.fiveYear (calculateCVRisk d)\<bar>
              \<le> CVRisk.fiveYear (calculateCVRisk d) / 10 ^ 9) \<and>
         (0.1 / 0.75 \<le> CVRisk.tenYear (calculateCVRisk d) \<longrightarrow>
            \<bar>CVRisk.tenYear (calculateCVRisk (d\<lparr>onStatins := True\<rparr>))
               - 0.75 * CVRisk.tenYear (calculateCVRisk d)\<bar>
              \<le> CVRisk.tenYear (calculateCVRisk d) / 10 ^ 9) \<and>
         (0.1 / 0.75 \<le> CVRisk.fifteenYear (calculateCVRisk d) \<longrightarrow>
            \<bar>CVRisk.fifteenYear (calculateCVRisk (d\<lparr>onStatins := True\<rparr>))
               - 0.75 * CVRisk.fifteenYear (calculateCVRisk d)\<bar>
              \<le> CVRisk.fifteenYear (calculateCVRisk d) / 10 ^ 9)"
proof -
  have on: "calculateRiskAtTime (d\<lparr>onStatins := True\<rparr>) t
      = min (max ((1 - (s10 d powr (t / 10)) powr riskFactor d) * 0.75 * 100) 0.1) 100"
  proof -
    have "onStatins (d\<lparr>onStatins := True\<rparr>)"
      by simp
    then show ?thesis
      by (simp only: calculateRiskAtTime_def Let_def statin_toggle_parameters if_True)
  qed
  have off: "calculateRiskAtTime d t
      = min (max ((1 - (s10 d powr (t / 10)) powr riskFactor d) * 100) 0.1) 100"
    using assms(2) by (simp only: calculateRiskAtTime_def Let_def if_False)
  note out = statin_toggle_output [OF assms(2)]
  show ?thesis
    unfolding calculateCVRisk_def
    using on off out(1) [of 5] out(1) [of 10] out(1) [of 15]
      out(2) [of 5] out(2) [of 10] out(2) [of 15]
      out(3) [of 5] out(3) [of 10] out(3) [of 15]
    by simp
qed

theorem statin_factor_witness:
  "validRecord highRiskPatient \<and> \<not> onStatins highRiskPatient \<and>
   0.1 < CVRisk.fiveYear (calculateCVRisk highRiskPatient) \<and>
   0.1 / 0.75 \<le> CVRisk.fiveYear (calculateCVRisk highRiskPatient) \<and>
   CVRisk.fiveYear (calculateCVRisk (highRiskPatient\<lparr>onStatins := True\<rparr>))
     < CVRisk.fiveYear (calculateCVRisk highRiskPatient) \<and>
   \<bar>CVRisk.fiveYear (calculateCVRisk (highRiskPatient\<lparr>onStatins := True\<rparr>))
      - 0.75 * CVRisk.fiveYear (calculateCVRisk highRiskPatient)\<bar>
     \<le> CVRisk.fiveYear (calculateCVRisk highRiskPatient) / 10 ^ 9 \<and>
   0.1 < CVRisk.tenYear (calculateCVRisk highRiskPatient) \<and>
   0.1 / 0.75 \<le> CVRisk.tenYear (calculateCVRisk highRiskPatient) \<and>
   CVRisk.tenYear (calculateCVRisk (highRiskPatient\<lparr>onStatins := True\<rparr>))
     < CVRisk.tenYear (calculateCVRisk highRiskPatient) \<and>
   \<bar>CVRisk.tenYear (calculateCVRisk (highRiskPatient\<lparr>onStatins := True\<rparr>))
      - 0.75 * CVRisk.tenYear (calculateCVRisk highRiskPatient)\<bar>
     \<le> CVRisk.tenYear (calculateCVRisk highRiskPatient) / 10 ^ 9 \<and>
   0.1 < CVRisk.fifteenYear (calculateCVRisk highRiskPatient) \<and>
   0.1 / 0.75 \<le> CVRisk.fifteenYear (calculateCVRisk highRiskPatient) \<and>
   CVRisk.fifteenYear (calculateCVRisk (highRiskPatient\<lparr>onStatins := True\<rparr>))
     < CVRisk.fifteenYear (calculateCVRisk highRiskPatient) \<and>
   \<bar>CVRisk.fifteenYear (calculateCVRisk (highRiskPatient\<lparr>onStatins := True\<rparr>))
      - 0.75 * CVRisk.fifteenYear (calculateCVRisk highRiskPatient)\<bar>
     \<le> CVRisk.fifteenYear (calculateCVRisk highRiskPatient) / 10 ^ 9"
proof -
  have v: "validRecord highRiskPatient" and n: "\<not> onStatins highRiskPatient"
    by (rule highRiskPatient_fields)+
  have lo: "8.56 \<le> calculateRiskAtTime highRiskPatient t" if "5 \<le> t" for t
  proof -
    have "8.56 \<le> riskBeforeClamp highRiskPatient t"
      using large_riskFactor_risk [of highRiskPatient t] highRiskPatient_riskFactor that
      by (simp add: highRiskPatient_fields)
    then show ?thesis
      by (simp add: calculateRiskAtTime_floor)
  qed
  have a: "0.1 < CVRisk.fiveYear (calculateCVRisk highRiskPatient)"
    "0.1 < CVRisk.tenYear (calculateCVRisk highRiskPatient)"
    "0.1 < CVRisk.fifteenYear (calculateCVRisk highRiskPatient)"
    and b: "0.1 / 0.75 \<le> CVRisk.fiveYear (calculateCVRisk highRiskPatient)"
    "0.1 / 0.75 \<le> CVRisk.tenYear (calculateCVRisk highRiskPatient)"
    "0.1 / 0.75 \<le> CVRisk.fifteenYear (calculateCVRisk highRiskPatient)"
    using lo [of 5] lo [of 10] lo [of 15] by (simp_all add: calculateCVRisk_def)
  from statin_factor [OF v n, of 10] v n a b show ?thesis by blast
qed

section \<open>The form of the linear predictor\<close>

text \<open>
  C5, as stated, fails for women: their sum has a term in the square of \<open>ln(age)\<close>,
  which is none of the nine listed terms.  With the coefficients of the code on the nine
  terms, the sum of the code differs from the combination at a woman of thirty.
\<close>

theorem linear_predictor_counterexample:
  "validRecord lowRiskPatient \<and> gender lowRiskPatient = FEMALE \<and>
   indivSum lowRiskPatient \<noteq> specLinearPredictor (pceCoefficients FEMALE) lowRiskPatient"
proof -
  have "indivSum lowRiskPatient
      = specLinearPredictor (pceCoefficients FEMALE) lowRiskPatient + 4.884 * (ln 30 * ln 30)"
    by (simp add: indivSum_FEMALE specLinearPredictor_def pceCoefficients_def
        lowRiskPatient_fields)
  moreover have "0 < ln (30::real) * ln 30"
    by simp
  ultimately show ?thesis
    by (simp add: lowRiskPatient_fields)
qed

text \<open>
  No other choice of coefficients helps: on records whose three laboratory logarithms
  vanish, a combination of the nine terms is a multiple of \<open>ln(age)\<close>, and the sum of
  the code is not.
\<close>

lemma unitProbe_fields:
  "gender (unitProbe a) = FEMALE" "age (unitProbe a) = a"
  "totalCholesterol (unitProbe a) = 1" "hdlCholesterol (unitProbe a) = 1"
  "systolicBP (unitProbe a) = 1" "\<not> isSmoker (unitProbe a)"
  "\<not> hasDiabetes (unitProbe a)" "\<not> onHypertensionMeds (unitProbe a)"
  by (simp_all add: unitProbe_def)

lemma female_sum_is_no_combination_of_the_terms:
  "\<not> (\<exists>c. \<forall>a. indivSum (unitProbe a) = specLinearPredictor c (unitProbe a))"
proof
  assume "\<exists>c. \<forall>a. indivSum (unitProbe a) = specLinearPredictor c (unitProbe a)"
  then obtain c where c: "indivSum (unitProbe a) = specLinearPredictor c (unitProbe a)" for a
    by blast
  have form: "- 29.799 * ln a + 4.884 * ln a * ln a = cAge c * ln a"
    if "30 \<le> a" and "a \<le> 79" for a :: real
  proof -
    have "evalAge (unitProbe a) = a"
      using that by (simp add: evalAge_def unitProbe_fields)
    then show ?thesis
      using c [of a] by (simp add: indivSum_FEMALE specLinearPredictor_def unitProbe_fields)
  qed
  have slope: "4.884 * ln a = cAge c + 29.799" if "30 \<le> a" and "a \<le> 79" for a :: real
  proof -
    have "0 < ln a" using that by simp
    moreover have "(4.884 * ln a - (cAge c + 29.799)) * ln a = 0"
      using form [OF that] by (simp add: algebra_simps)
    ultimately show ?thesis by simp
  qed
  have "4.884 * ln (30::real) = 4.884 * ln 79"
    using slope [of 30] slope [of 79] by simp
  then show False by simp
qed

text \<open>
  C5, amended: the sum is the combination of the nine terms with the sex-specific
  coefficients of the code and, for women only, one more term, 4.884 times the square of
  \<open>ln(age)\<close>; the SBP coefficient is chosen by the hypertension-medication flag, and the
  age under every logarithm is the age clamped to the interval from 30 to 79.
\<close>

theorem linear_predictor_form:
  "indivSum d =
     specLinearPredictor (pceCoefficients (gender d)) d +
     (if gender d = FEMALE then 4.884 * (ln (evalAge d)) ^ 2 else 0) \<and>
   riskFactor d = exp (indivSum d - meanSum d) \<and>
   evalAge d = (if age d < 30 then 30 else if 79 < age d then 79 else age d) \<and>
   30 \<le> evalAge d \<and> evalAge d \<le> 79"
proof -
  have "indivSum d =
     specLinearPredictor (pceCoefficients (gender d)) d +
     (if gender d = FEMALE then 4.884 * (ln (evalAge d)) ^ 2 else 0)"
  proof (cases "gender d")
    case MALE
    then show ?thesis
      by (simp add: indivSum_MALE specLinearPredictor_def pceCoefficients_def)
  next
    case FEMALE
    then show ?thesis
      by (simp add: indivSum_FEMALE specLinearPredictor_def pceCoefficients_def power2_eq_square)
  qed
  moreover have "evalAge d = (if age d < 30 then 30 else if 79 < age d then 79 else age d)"
    by (simp add: evalAge_def)
  ultimately show ?thesis
    using evalAge_bounds [of d] by (simp add: riskFactor_def)
qed

section \<open>The optimal counterfactual against the original record\<close>

lemma risk_mono_in_predictor:
  assumes "gender d1 = gender d2" and "\<not> onStatins d1" and "\<not> onStatins d2"
    and "indivSum d1 \<le> indivSum d2" and "0 \<le> t"
  shows "calculateRiskAtTime d1 t \<le> calculateRiskAtTime d2 t"
proof -
  have s: "s10 d1 = s10 d2"
    using assms(1) by (simp add: s10_def)
  have "riskFactor d1 \<le> riskFactor d2"
    using assms(1,4) by (simp add: riskFactor_def meanSum_def)
  then have "t / 10 * riskFactor d1 \<le> t / 10 * riskFactor d2"
    using assms(5) by (intro mult_left_mono) simp_all
  then have "s10 d2 powr (t / 10 * riskFactor d2) \<le> s10 d2 powr (t / 10 * riskFactor d1)"
    using s10_bounds [of d2] by (intro powr_mono') simp_all
  then have "riskBeforeClamp d1 t \<le> riskBeforeClamp d2 t"
    using assms(2,3) by (simp add: riskBeforeClamp_eq s)
  then show ?thesis
    by (simp add: calculateRiskAtTime_floor)
qed

lemma risk_strict_mono_in_predictor:
  assumes "gender d1 = gender d2" and "\<not> onStatins d1" and "\<not> onStatins d2"
    and "indivSum d1 < indivSum d2" and "0 < t" and "0.1 < calculateRiskAtTime d2 t"
  shows "calculateRiskAtTime d1 t < calculateRiskAtTime d2 t"
proof -
  have s: "s10 d1 = s10 d2"
    using assms(1) by (simp add: s10_def)
  have "riskFactor d1 < riskFactor d2"
    using assms(1,4) by (simp add: riskFactor_def meanSum_def)
  then have "t / 10 * riskFactor d1 < t / 10 * riskFactor d2"
    using assms(5) by simp
  then have "s10 d2 powr (t / 10 * riskFactor d2) < s10 d2 powr (t / 10 * riskFactor d1)"
    using s10_bounds [of d2] by (intro powr_less_mono') simp_all
  then have "riskBeforeClamp d1 t < riskBeforeClamp d2 t"
    using assms(2,3) by (simp add: riskBeforeClamp_eq s)
  then show ?thesis
    using assms(6) by (simp add: calculateRiskAtTime_floor)
qed

text \<open>
  The sum of the original record against the sum of its optimal counterfactual, below the
  ages at which a coefficient of the model changes sign.
\<close>

lemma ln_evalAge_bounds:
  "0 < ln (evalAge d)"
  "age d \<le> 78 \<Longrightarrow> ln (evalAge d) \<le> 4.36"
  "age d \<le> 74 \<Longrightarrow> ln (evalAge d) \<le> 4.31"
proof -
  show "0 < ln (evalAge d)"
    using evalAge_bounds(1) [of d] by simp
  show "ln (evalAge d) \<le> 4.36" if "age d \<le> 78"
  proof -
    have "evalAge d \<le> 78" using that by (simp add: evalAge_def)
    then have "ln (evalAge d) \<le> ln 78"
      using evalAge_bounds(1) [of d] by simp
    then show ?thesis using ln_78_upper by linarith
  qed
  show "ln (evalAge d) \<le> 4.31" if "age d \<le> 74"
  proof -
    have "evalAge d \<le> 74" using that by (simp add: evalAge_def)
    then have "ln (evalAge d) \<le> ln 74"
      using evalAge_bounds(1) [of d] by simp
    then show ?thesis using ln_74_upper by linarith
  qed
qed

lemma indivSum_optimalData_le:
  assumes "age d \<le> (if gender d = MALE then 78 else 74)"
    and "115 \<le> systolicBP d" and "160 \<le> totalCholesterol d"
    and "0 < hdlCholesterol d" and "hdlCholesterol d \<le> 55"
  shows "indivSum (optimalData d) \<le> indivSum d \<and>
    (115 < systolicBP d \<or> 160 < totalCholesterol d \<or> hdlCholesterol d < 55 \<or>
       isSmoker d \<or> onHypertensionMeds d \<longrightarrow> indivSum (optimalData d) < indivSum d)"
proof -
  define L T H S where "L = ln (evalAge d)" and "T = ln (totalCholesterol d) - ln 160"
    and "H = ln 55 - ln (hdlCholesterol d)" and "S = ln (systolicBP d) - ln 115"
  have L0: "0 < L"
    unfolding L_def by (rule ln_evalAge_bounds)
  have T0: "0 \<le> T" and H0: "0 \<le> H" and S0: "0 \<le> S"
    unfolding T_def H_def S_def using assms(2-5) by simp_all
  have T1: "0 < T" if "160 < totalCholesterol d"
    unfolding T_def using that by simp
  have H1: "0 < H" if "hdlCholesterol d < 55"
    unfolding H_def using that assms(4) by simp
  have S1: "0 < S" if "115 < systolicBP d"
    unfolding S_def using that by simp
  have S115: "4.744 \<le> ln (115::real)"
    by (rule ln_115_bounds)
  show ?thesis
  proof (cases "gender d")
    case MALE
    then have "age d \<le> 78"
      using assms(1) by simp
    then have L1: "L \<le> 4.36"
      unfolding L_def by (rule ln_evalAge_bounds)
    have cT: "0 < 11.853 - 2.664 * L" and cH: "0 < 7.990 - 1.769 * L"
      and cK: "0 < 7.837 - 1.795 * L"
      using L1 by simp_all
    define smoke where "smoke = (if isSmoker d then 7.837 - 1.795 * L else 0)"
    define meds where "meds = (if onHypertensionMeds d then 0.033 * (S + ln 115) else 0)"
    define pt ph ps where "pt = (11.853 - 2.664 * L) * T" and "ph = (7.990 - 1.769 * L) * H"
      and "ps = 1.764 * S"
    have diff: "indivSum d - indivSum (optimalData d) = pt + ph + ps + meds + smoke"
    proof -
      define lt lh ls diab :: real where "lt = ln (totalCholesterol d)"
        and "lh = ln (hdlCholesterol d)" and "ls = ln (systolicBP d)"
        and "diab = (if hasDiabetes d then 0.658 else 0)"
      have orig: "indivSum d =
          12.344 * L + 11.853 * lt - 2.664 * L * lt - 7.990 * lh + 1.769 * L * lh
          + (if onHypertensionMeds d then 1.797 else 1.764) * ls + smoke + diab"
        using MALE by (simp add: indivSum_MALE L_def lt_def lh_def ls_def diab_def smoke_def)
      have opt: "indivSum (optimalData d) =
          12.344 * L + 11.853 * ln 160 - 2.664 * L * ln 160 - 7.990 * ln 55
          + 1.769 * L * ln 55 + 1.764 * ln 115 + diab"
        using MALE
        by (simp add: indivSum_MALE optimalData_fields evalAge_optimalData L_def diab_def)
      have "meds = (if onHypertensionMeds d then 0.033 * ls else 0)"
        by (simp add: meds_def S_def ls_def)
      then show ?thesis
        unfolding orig opt pt_def ph_def ps_def T_def H_def S_def lt_def [symmetric]
          lh_def [symmetric] ls_def [symmetric]
        by (cases "onHypertensionMeds d") (simp_all add: field_simps)
    qed
    have t: "0 \<le> pt" and h: "0 \<le> ph" and p: "0 \<le> ps"
      unfolding pt_def ph_def ps_def using cT cH T0 H0 S0 by simp_all
    have k: "0 \<le> smoke" and m: "0 \<le> meds"
      unfolding smoke_def meds_def using cK S0 S115 by simp_all
    have le: "indivSum (optimalData d) \<le> indivSum d"
      using diff t h p k m by linarith
    have less: "indivSum (optimalData d) < indivSum d"
      if w: "115 < systolicBP d \<or> 160 < totalCholesterol d \<or> hdlCholesterol d < 55 \<or>
         isSmoker d \<or> onHypertensionMeds d"
    proof -
      consider "115 < systolicBP d" | "160 < totalCholesterol d" | "hdlCholesterol d < 55"
        | "isSmoker d" | "onHypertensionMeds d"
        using w by blast
      then have "0 < pt \<or> 0 < ph \<or> 0 < ps \<or> 0 < meds \<or> 0 < smoke"
      proof cases
        case 1 then show ?thesis using S1 by (simp add: ps_def)
      next
        case 2 then show ?thesis using T1 cT by (simp add: pt_def)
      next
        case 3 then show ?thesis using H1 cH by (simp add: ph_def)
      next
        case 4 then show ?thesis using cK by (simp add: smoke_def)
      next
        case 5 then show ?thesis using S0 S115 by (simp add: meds_def)
      qed
      then show ?thesis
        using diff t h p k m by linarith
    qed
    from le less show ?thesis by blast
  next
    case FEMALE
    then have "age d \<le> 74"
      using assms(1) by simp
    then have L1: "L \<le> 4.31"
      unfolding L_def by (rule ln_evalAge_bounds)
    have cT: "0 < 13.540 - 3.114 * L" and cH: "0 < 13.578 - 3.149 * L"
      and cK: "0 < 7.574 - 1.665 * L"
      using L1 by simp_all
    define smoke where "smoke = (if isSmoker d then 7.574 - 1.665 * L else 0)"
    define meds where "meds = (if onHypertensionMeds d then 0.062 * (S + ln 115) else 0)"
    define pt ph ps where "pt = (13.540 - 3.114 * L) * T" and "ph = (13.578 - 3.149 * L) * H"
      and "ps = 1.957 * S"
    have diff: "indivSum d - indivSum (optimalData d) = pt + ph + ps + meds + smoke"
    proof -
      define lt lh ls diab :: real where "lt = ln (totalCholesterol d)"
        and "lh = ln (hdlCholesterol d)" and "ls = ln (systolicBP d)"
        and "diab = (if hasDiabetes d then 0.661 else 0)"
      have orig: "indivSum d =
          - 29.799 * L + 4.884 * L * L + 13.540 * lt - 3.114 * L * lt - 13.578 * lh
          + 3.149 * L * lh + (if onHypertensionMeds d then 2.019 else 1.957) * ls
          + smoke + diab"
        using FEMALE
        by (simp add: indivSum_FEMALE L_def lt_def lh_def ls_def diab_def smoke_def)
      have opt: "indivSum (optimalData d) =
          - 29.799 * L + 4.884 * L * L + 13.540 * ln 160 - 3.114 * L * ln 160
          - 13.578 * ln 55 + 3.149 * L * ln 55 + 1.957 * ln 115 + diab"
        using FEMALE
        by (simp add: indivSum_FEMALE optimalData_fields evalAge_optimalData L_def diab_def)
      have "meds = (if onHypertensionMeds d then 0.062 * ls else 0)"
        by (simp add: meds_def S_def ls_def)
      then show ?thesis
        unfolding orig opt pt_def ph_def ps_def T_def H_def S_def lt_def [symmetric]
          lh_def [symmetric] ls_def [symmetric]
        by (cases "onHypertensionMeds d") (simp_all add: field_simps)
    qed
    have t: "0 \<le> pt" and h: "0 \<le> ph" and p: "0 \<le> ps"
      unfolding pt_def ph_def ps_def using cT cH T0 H0 S0 by simp_all
    have k: "0 \<le> smoke" and m: "0 \<le> meds"
      unfolding smoke_def meds_def using cK S0 S115 by simp_all
    have le: "indivSum (optimalData d) \<le> indivSum d"
      using diff t h p k m by linarith
    have less: "indivSum (optimalData d) < indivSum d"
      if w: "115 < systolicBP d \<or> 160 < totalCholesterol d \<or> hdlCholesterol d < 55 \<or>
         isSmoker d \<or> onHypertensionMeds d"
    proof -
      consider "115 < systolicBP d" | "160 < totalCholesterol d" | "hdlCholesterol d < 55"
        | "isSmoker d" | "onHypertensionMeds d"
        using w by blast
      then have "0 < pt \<or> 0 < ph \<or> 0 < ps \<or> 0 < meds \<or> 0 < smoke"
      proof cases
        case 1 then show ?thesis using S1 by (simp add: ps_def)
      next
        case 2 then show ?thesis using T1 cT by (simp add: pt_def)
      next
        case 3 then show ?thesis using H1 cH by (simp add: ph_def)
      next
        case 4 then show ?thesis using cK by (simp add: smoke_def)
      next
        case 5 then show ?thesis using S0 S115 by (simp add: meds_def)
      qed
      then show ?thesis
        using diff t h p k m by linarith
    qed
    from le less show ?thesis by blast
  qed
qed

lemma optimalData_highRiskOnStatins: "optimalData highRiskOnStatins = highRiskPatient"
  by (simp add: optimalData_def highRiskOnStatins_def highRiskPatient_def)

lemma optimalData_highRiskTreated: "optimalData highRiskTreated = highRiskPatient"
  by (simp add: optimalData_def highRiskTreated_def highRiskPatient_def)

lemma optimalData_highRiskPatient: "optimalData highRiskPatient = highRiskPatient"
  by (simp add: optimalData_def highRiskPatient_def)

lemma highRiskPatient_tenYear: "8.56 \<le> riskBeforeClamp highRiskPatient 10"
  using large_riskFactor_risk [of highRiskPatient 10] highRiskPatient_riskFactor
  by (simp add: highRiskPatient_fields)

text \<open>
  C6, as stated, fails: the counterfactual also switches statins off, and statins lower
  the risk.  A man on statins whose other modifiable fields already equal the optimal
  constants has a ten-year risk of three quarters of his optimal ten-year risk.
\<close>

theorem optimal_le_original_counterexample:
  "0 < acr highRiskOnStatins \<and>
   systolicBP highRiskOnStatins = 115 \<and> diastolicBP highRiskOnStatins = 75 \<and>
   totalCholesterol highRiskOnStatins = 160 \<and> hdlCholesterol highRiskOnStatins = 55 \<and>
   \<not> isSmoker highRiskOnStatins \<and> \<not> onHypertensionMeds highRiskOnStatins \<and>
   onStatins highRiskOnStatins \<and>
   CVRisk.tenYear (calculateCVRisk highRiskOnStatins)
     < CVRisk.tenYear (calculateOptimalRisk highRiskOnStatins)"
proof -
  have "riskBeforeClamp highRiskOnStatins 10 = 0.75 * riskBeforeClamp highRiskPatient 10"
    unfolding highRiskOnStatins_def
    by (rule riskBeforeClamp_statins) (rule highRiskPatient_fields)
  then have "calculateRiskAtTime highRiskOnStatins 10 < calculateRiskAtTime highRiskPatient 10"
    using highRiskPatient_tenYear by (simp add: calculateRiskAtTime_floor)
  then have "CVRisk.tenYear (calculateCVRisk highRiskOnStatins)
      < CVRisk.tenYear (calculateOptimalRisk highRiskOnStatins)"
    by (simp add: calculateOptimalRisk_def optimalData_highRiskOnStatins calculateCVRisk_def)
  then show ?thesis
    by (simp add: highRiskOnStatins_def highRiskPatient_def)
qed

text \<open>
  C6, amended: for a record that is not on statins, whose age is at most 78 for a man and
  at most 74 for a woman, whose systolic blood pressure is at least 115, whose total
  cholesterol is at least 160 and whose HDL cholesterol is positive and at most 55 (with
  any smoking and hypertension-medication status, and any diastolic pressure), the
  optimal ten-year risk is at most the original ten-year risk.  The two are equal when
  systolic pressure, total and HDL cholesterol, smoking and hypertension medication
  already have their optimal values, and the optimal one is strictly smaller when one of
  these five is strictly worse and the original ten-year risk is above the floor 0.1 of
  the clamp.
\<close>

theorem optimal_le_original:
  assumes "\<not> onStatins d"
    and "age d \<le> (if gender d = MALE then 78 else 74)"
    and "115 \<le> systolicBP d" and "160 \<le> totalCholesterol d"
    and "0 < hdlCholesterol d" and "hdlCholesterol d \<le> 55"
  shows "CVRisk.tenYear (calculateOptimalRisk d) \<le> CVRisk.tenYear (calculateCVRisk d) \<and>
    (systolicBP d = 115 \<and> totalCholesterol d = 160 \<and> hdlCholesterol d = 55 \<and>
     \<not> isSmoker d \<and> \<not> onHypertensionMeds d \<longrightarrow>
       CVRisk.tenYear (calculateOptimalRisk d) = CVRisk.tenYear (calculateCVRisk d)) \<and>
    (0.1 < CVRisk.tenYear (calculateCVRisk d) \<and>
     (115 < systolicBP d \<or> 160 < totalCholesterol d \<or> hdlCholesterol d < 55 \<or>
      isSmoker d \<or> onHypertensionMeds d) \<longrightarrow>
       CVRisk.tenYear (calculateOptimalRisk d) < CVRisk.tenYear (calculateCVRisk d))"
proof -
  let ?o = "optimalData d"
  have g: "gender ?o = gender d" and s: "\<not> onStatins ?o"
    by (simp_all add: optimalData_fields)
  note sums = indivSum_optimalData_le [OF assms(2-6)]
  have le: "calculateRiskAtTime ?o 10 \<le> calculateRiskAtTime d 10"
    using g s assms(1) sums by (intro risk_mono_in_predictor) simp_all
  have eq: "calculateRiskAtTime ?o 10 = calculateRiskAtTime d 10"
    if "systolicBP d = 115 \<and> totalCholesterol d = 160 \<and> hdlCholesterol d = 55 \<and>
     \<not> isSmoker d \<and> \<not> onHypertensionMeds d"
  proof -
    have "indivSum ?o = indivSum d"
      using that by (intro indivSum_cong) (simp_all add: optimalData_fields evalAge_optimalData)
    then show ?thesis
      using g assms(1) by (intro calculateRiskAtTime_cong) (simp_all add: optimalData_fields)
  qed
  have less: "calculateRiskAtTime ?o 10 < calculateRiskAtTime d 10"
    if "0.1 < calculateRiskAtTime d 10"
      and "115 < systolicBP d \<or> 160 < totalCholesterol d \<or> hdlCholesterol d < 55 \<or>
        isSmoker d \<or> onHypertensionMeds d"
    using g s assms(1) sums that by (intro risk_strict_mono_in_predictor) simp_all
  show ?thesis
    using le eq less by (simp add: calculateOptimalRisk_def calculateCVRisk_def)
qed

theorem optimal_le_original_witness:
  "\<not> onStatins highRiskTreated \<and>
   age highRiskTreated \<le> (if gender highRiskTreated = MALE then 78 else 74) \<and>
   115 \<le> systolicBP highRiskTreated \<and> 160 \<le> totalCholesterol highRiskTreated \<and>
   0 < hdlCholesterol highRiskTreated \<and> hdlCholesterol highRiskTreated \<le> 55 \<and>
   onHypertensionMeds highRiskTreated \<and>
   0.1 < CVRisk.tenYear (calculateCVRisk highRiskTreated) \<and>
   CVRisk.tenYear (calculateOptimalRisk highRiskTreated)
     < CVRisk.tenYear (calculateCVRisk highRiskTreated) \<and>
   \<not> onStatins highRiskPatient \<and>
   age highRiskPatient \<le> (if gender highRiskPatient = MALE then 78 else 74) \<and>
   systolicBP highRiskPatient = 115 \<and> totalCholesterol highRiskPatient = 160 \<and>
   hdlCholesterol highRiskPatient = 55 \<and> \<not> isSmoker highRiskPatient \<and>
   \<not> onHypertensionMeds highRiskPatient \<and>
   CVRisk.tenYear (calculateOptimalRisk highRiskPatient)
     = CVRisk.tenYear (calculateCVRisk highRiskPatient)"
proof -
  have t: "\<not> onStatins highRiskTreated"
    "age highRiskTreated \<le> (if gender highRiskTreated = MALE then 78 else 74)"
    "115 \<le> systolicBP highRiskTreated" "160 \<le> totalCholesterol highRiskTreated"
    "0 < hdlCholesterol highRiskTreated" "hdlCholesterol highRiskTreated \<le> 55"
    and m: "onHypertensionMeds highRiskTreated" and gt: "gender highRiskTreated = MALE"
    by (simp_all add: highRiskTreated_def highRiskPatient_def)
  have p: "\<not> onStatins highRiskPatient"
    "age highRiskPatient \<le> (if gender highRiskPatient = MALE then 78 else 74)"
    "115 \<le> systolicBP highRiskPatient" "160 \<le> totalCholesterol highRiskPatient"
    "0 < hdlCholesterol highRiskPatient" "hdlCholesterol highRiskPatient \<le> 55"
    and q: "systolicBP highRiskPatient = 115" "totalCholesterol highRiskPatient = 160"
    "hdlCholesterol highRiskPatient = 55" "\<not> isSmoker highRiskPatient"
    "\<not> onHypertensionMeds highRiskPatient"
    by (simp_all add: highRiskPatient_def)
  have "indivSum highRiskPatient \<le> indivSum highRiskTreated"
    using indivSum_optimalData_le [OF t(2-6)] by (simp add: optimalData_highRiskTreated)
  then have "riskFactor highRiskPatient \<le> riskFactor highRiskTreated"
    using gt by (simp add: riskFactor_def meanSum_def highRiskPatient_fields)
  then have "2 \<le> riskFactor highRiskTreated"
    using highRiskPatient_riskFactor by linarith
  then have "8.56 \<le> riskBeforeClamp highRiskTreated 10"
    using large_riskFactor_risk [of highRiskTreated 10] gt t(1) by simp
  then have r: "0.1 < CVRisk.tenYear (calculateCVRisk highRiskTreated)"
    by (simp add: calculateCVRisk_def calculateRiskAtTime_floor)
  from optimal_le_original [OF t] optimal_le_original [OF p] t p q m r
  show ?thesis by blast
qed

text \<open>
  The age bounds cannot be dropped: the coefficient of smoking of the male model,
  \<open>7.837 - 1.795 * ln(age)\<close>, is negative at seventy-nine, and the coefficient of
  \<open>ln(HDL)\<close> of the female model, \<open>- 13.578 + 3.149 * ln(age)\<close>, is positive at
  seventy-five.  There the optimal record has the higher risk.
\<close>

lemma ln_79_bounds: "4.369 \<le> ln (79::real)" "ln (79::real) \<le> 4.370"
proof -
  show "4.369 \<le> ln (79::real)"
    by (rule ln_ge_by_expLower [where k = 8]) (simp_all add: expLower_def power_divide)
  show "ln (79::real) \<le> 4.370"
    by (rule ln_le_by_expLower [where k = 8]) (simp_all add: expLower_def power_divide)
qed

lemma ln_75_bounds: "4.317 \<le> ln (75::real)" "ln (75::real) \<le> 4.318"
proof -
  show "4.317 \<le> ln (75::real)"
    by (rule ln_ge_by_expLower [where k = 8]) (simp_all add: expLower_def power_divide)
  show "ln (75::real) \<le> 4.318"
    by (rule ln_le_by_expLower [where k = 8]) (simp_all add: expLower_def power_divide)
qed

lemma large_riskFactor_risk_any:
  assumes "2 \<le> riskFactor d" and "5 \<le> t" and "\<not> onStatins d"
  shows "3.35 \<le> riskBeforeClamp d t"
proof -
  have "5 * 2 \<le> t * riskFactor d"
    using assms(1,2) by (intro mult_mono) simp_all
  then have "1 \<le> t / 10 * riskFactor d"
    by simp
  then have "s10 d powr (t / 10 * riskFactor d) \<le> s10 d powr 1"
    using s10_bounds [of d] by (intro powr_mono') simp_all
  moreover have "s10 d \<le> 0.9665"
    by (simp add: s10_def)
  ultimately have "s10 d powr (t / 10 * riskFactor d) \<le> 0.9665"
    using s10_bounds(1) [of d] by simp
  then show ?thesis
    using assms(3) by (simp add: riskBeforeClamp_eq)
qed

lemma elderlySmoker_fields:
  "gender elderlySmoker = MALE" "evalAge elderlySmoker = 79"
  "totalCholesterol elderlySmoker = 160" "hdlCholesterol elderlySmoker = 55"
  "systolicBP elderlySmoker = 115" "isSmoker elderlySmoker"
  "hasDiabetes elderlySmoker" "\<not> onHypertensionMeds elderlySmoker"
  "\<not> onStatins elderlySmoker" "age elderlySmoker = 79"
  by (simp_all add: elderlySmoker_def evalAge_def)

lemma optimal_above_original_for_smoker_of_79:
  "\<not> onStatins elderlySmoker \<and> age elderlySmoker = 79 \<and> gender elderlySmoker = MALE \<and>
   systolicBP elderlySmoker = 115 \<and> totalCholesterol elderlySmoker = 160 \<and>
   hdlCholesterol elderlySmoker = 55 \<and> isSmoker elderlySmoker \<and>
   CVRisk.tenYear (calculateCVRisk elderlySmoker)
     < CVRisk.tenYear (calculateOptimalRisk elderlySmoker)"
proof -
  let ?o = "optimalData elderlySmoker"
  define L T H S :: real where "L = ln 79" and "T = ln 160" and "H = ln 55" and "S = ln 115"
  have L: "4.369 \<le> L" "L \<le> 4.370" and T: "5.075 \<le> T" "T \<le> 5.076"
    and H: "4.007 \<le> H" "H \<le> 4.008" and S: "4.744 \<le> S" "S \<le> 4.745"
    unfolding L_def T_def H_def S_def
    using ln_79_bounds ln_160_bounds ln_55_bounds ln_115_bounds by simp_all
  have LT: "L * T \<le> 4.370 * 5.076"
    using L T by (intro mult_mono) simp_all
  have LH: "4.369 * 4.007 \<le> L * H"
    using L H by (intro mult_mono) simp_all
  have opt: "indivSum ?o =
      12.344 * L + 11.853 * T - 2.664 * (L * T) - 7.990 * H + 1.769 * (L * H)
      + 1.764 * S + 0.658"
    by (simp add: indivSum_MALE optimalData_fields evalAge_optimalData elderlySmoker_fields
        L_def T_def H_def S_def)
  have orig: "indivSum elderlySmoker =
      12.344 * L + 11.853 * T - 2.664 * (L * T) - 7.990 * H + 1.769 * (L * H)
      + 1.764 * S + (7.837 - 1.795 * L) + 0.658"
    by (simp add: indivSum_MALE elderlySmoker_fields L_def T_def H_def S_def)
  have less: "indivSum elderlySmoker < indivSum ?o"
    unfolding orig opt using L by simp
  have "meanSum ?o = 61.1816"
    by (simp add: meanSum_def optimalData_fields elderlySmoker_fields)
  then have "1 \<le> indivSum ?o - meanSum ?o"
    unfolding opt using L T H S LT LH by simp
  then have "exp 1 \<le> riskFactor ?o"
    by (simp add: riskFactor_def)
  then have "2 \<le> riskFactor ?o"
    using exp_1_lower by linarith
  then have "3.35 \<le> riskBeforeClamp ?o 10"
    by (intro large_riskFactor_risk_any) (simp_all add: optimalData_fields)
  then have "0.1 < calculateRiskAtTime ?o 10"
    by (simp add: calculateRiskAtTime_floor)
  then have "calculateRiskAtTime elderlySmoker 10 < calculateRiskAtTime ?o 10"
    using less
    by (intro risk_strict_mono_in_predictor) (simp_all add: optimalData_fields elderlySmoker_fields)
  then show ?thesis
    by (simp add: calculateOptimalRisk_def calculateCVRisk_def elderlySmoker_fields)
qed

lemma womanLowHDL_fields:
  "gender womanLowHDL = FEMALE" "evalAge womanLowHDL = 75"
  "totalCholesterol womanLowHDL = 160" "hdlCholesterol womanLowHDL = 40"
  "systolicBP womanLowHDL = 115" "\<not> isSmoker womanLowHDL"
  "\<not> hasDiabetes womanLowHDL" "\<not> onHypertensionMeds womanLowHDL"
  "\<not> onStatins womanLowHDL" "age womanLowHDL = 75"
  by (simp_all add: womanLowHDL_def evalAge_def)

lemma optimal_above_original_for_woman_of_75:
  "\<not> onStatins womanLowHDL \<and> age womanLowHDL = 75 \<and> gender womanLowHDL = FEMALE \<and>
   systolicBP womanLowHDL = 115 \<and> totalCholesterol womanLowHDL = 160 \<and>
   hdlCholesterol womanLowHDL < 55 \<and> 0 < hdlCholesterol womanLowHDL \<and>
   CVRisk.tenYear (calculateCVRisk womanLowHDL)
     < CVRisk.tenYear (calculateOptimalRisk womanLowHDL)"
proof -
  let ?o = "optimalData womanLowHDL"
  define L T H S :: real where "L = ln 75" and "T = ln 160" and "H = ln 55" and "S = ln 115"
  have L: "4.317 \<le> L" "L \<le> 4.318" and T: "5.075 \<le> T" "T \<le> 5.076"
    and H: "4.007 \<le> H" "H \<le> 4.008" and S: "4.744 \<le> S" "S \<le> 4.745"
    unfolding L_def T_def H_def S_def
    using ln_75_bounds ln_160_bounds ln_55_bounds ln_115_bounds by simp_all
  have LL: "4.317 * 4.317 \<le> L * L"
    using L by (intro mult_mono) simp_all
  have LT: "L * T \<le> 4.318 * 5.076"
    using L T by (intro mult_mono) simp_all
  have LH: "4.317 * 4.007 \<le> L * H"
    using L H by (intro mult_mono) simp_all
  define rest where "rest =
      - 29.799 * L + 4.884 * (L * L) + 13.540 * T - 3.114 * (L * T) + 1.957 * S"
  have opt: "indivSum ?o = rest - (13.578 - 3.149 * L) * H"
    by (simp add: indivSum_FEMALE optimalData_fields evalAge_optimalData womanLowHDL_fields
        L_def T_def H_def S_def rest_def algebra_simps)
  have orig: "indivSum womanLowHDL = rest - (13.578 - 3.149 * L) * ln 40"
    by (simp add: indivSum_FEMALE womanLowHDL_fields L_def T_def H_def S_def rest_def
        algebra_simps)
  have "ln (40::real) < H"
    unfolding H_def by simp
  moreover have "13.578 - 3.149 * L < 0"
    using L by simp
  ultimately have "(13.578 - 3.149 * L) * H < (13.578 - 3.149 * L) * ln 40"
    by (rule mult_strict_left_mono_neg)
  then have less: "indivSum womanLowHDL < indivSum ?o"
    unfolding orig opt by simp
  have "meanSum ?o = - 29.182"
    by (simp add: meanSum_def optimalData_fields womanLowHDL_fields)
  moreover have "indivSum ?o =
      - 29.799 * L + 4.884 * (L * L) + 13.540 * T - 3.114 * (L * T) - 13.578 * H
      + 3.149 * (L * H) + 1.957 * S"
    unfolding opt rest_def by (simp add: algebra_simps)
  ultimately have "1 \<le> indivSum ?o - meanSum ?o"
    using L T H S LL LT LH by simp
  then have "exp 1 \<le> riskFactor ?o"
    by (simp add: riskFactor_def)
  then have "2 \<le> riskFactor ?o"
    using exp_1_lower by linarith
  then have "3.35 \<le> riskBeforeClamp ?o 10"
    by (intro large_riskFactor_risk_any) (simp_all add: optimalData_fields)
  then have "0.1 < calculateRiskAtTime ?o 10"
    by (simp add: calculateRiskAtTime_floor)
  then have "calculateRiskAtTime womanLowHDL 10 < calculateRiskAtTime ?o 10"
    using less
    by (intro risk_strict_mono_in_predictor) (simp_all add: optimalData_fields womanLowHDL_fields)
  then show ?thesis
    by (simp add: calculateOptimalRisk_def calculateCVRisk_def womanLowHDL_fields)
qed

end
